theory Spec2Isabelle
  imports Main
begin

section \<open>Decimal text of arbitrary-precision integers\<close>

text \<open>
  \<^verbatim>\<open>bigint.toString()\<close> and \<^verbatim>\<open>String(n)\<close> for an integer-valued number print the
  decimal digits, most significant first, with a leading minus sign for negative values.
\<close>

definition digit_char :: "nat \<Rightarrow> char" where
  "digit_char d = ''0123456789'' ! d"

fun show_nat :: "nat \<Rightarrow> string" where
  "show_nat n =
     (if n < 10 then [digit_char n] else show_nat (n div 10) @ [digit_char (n mod 10)])"

declare show_nat.simps [simp del]

definition bigint_toString :: "int \<Rightarrow> string" where
  "bigint_toString i =
     (if i < 0 then CHR ''-'' # show_nat (nat (- i)) else show_nat (nat i))"

text \<open>Reading the digits back, used to state that no precision is lost.\<close>

definition digit_val :: "char \<Rightarrow> nat" where
  "digit_val c = of_char c - 48"

definition read_nat :: "string \<Rightarrow> nat" where
  "read_nat s = foldl (\<lambda>acc c. 10 * acc + digit_val c) 0 s"

definition read_int :: "string \<Rightarrow> int" where
  "read_int s =
     (case s of
        [] \<Rightarrow> 0
      | c # cs \<Rightarrow> if c = CHR ''-'' then - int (read_nat cs) else int (read_nat s))"


section \<open>Runtime values\<close>

text \<open>
  The values the service handles at run time (\<^verbatim>\<open>any\<close> in the source). A value is a finite
  tree: cyclic object graphs are not represented. \<open>JNumber\<close> holds an integer-valued
  number in the safe range (chain ids, nonces, block numbers, log indices), printed as
  its decimal digits; \<open>JBigInt\<close> is a
  \<^verbatim>\<open>bigint\<close>. \<open>JObject es\<close> is a plain object with own enumerable entries \<open>es\<close> in
  enumeration order; \<open>JJsonable es r\<close> is an object with the entries \<open>es\<close> and one more own
  property, \<^verbatim>\<open>toJSON\<close>, holding a function whose call returns \<open>r\<close>. Functions occur
  nowhere else.
\<close>

datatype jsval =
    JUndefined
  | JNull
  | JBoolean bool
  | JNumber int
  | JBigInt int
  | JString string
  | JArray "jsval list"
  | JObject "(string \<times> jsval) list"
  | JJsonable "(string \<times> jsval) list" jsval

fun join_strs :: "string \<Rightarrow> string list \<Rightarrow> string" where
  "join_strs sep [] = []"
| "join_strs sep [s] = s"
| "join_strs sep (s # t # ss) = s @ sep @ join_strs sep (t # ss)"

text \<open>
  \<^verbatim>\<open>String(v)\<close>, which is also the coercion a template literal applies. An array prints
  its elements joined by commas, with \<^verbatim>\<open>undefined\<close> and \<^verbatim>\<open>null\<close> elements empty.
\<close>

fun js_String :: "jsval \<Rightarrow> string" where
  "js_String JUndefined = ''undefined''"
| "js_String JNull = ''null''"
| "js_String (JBoolean b) = (if b then ''true'' else ''false'')"
| "js_String (JNumber i) = bigint_toString i"
| "js_String (JBigInt i) = bigint_toString i"
| "js_String (JString s) = s"
| "js_String (JArray xs) =
     join_strs '','' (map (\<lambda>x. if x = JUndefined \<or> x = JNull then [] else js_String x) xs)"
| "js_String (JObject es) = ''[object Object]''"
| "js_String (JJsonable es r) = ''[object Object]''"

text \<open>\<^verbatim>\<open>Array.prototype.join(sep)\<close>.\<close>

definition array_join :: "string \<Rightarrow> jsval list \<Rightarrow> string" where
  "array_join sep xs =
     join_strs sep (map (\<lambda>x. if x = JUndefined \<or> x = JNull then [] else js_String x) xs)"

text \<open>Truthiness, as tested by \<^verbatim>\<open>if (v)\<close>, \<^verbatim>\<open>!v\<close> and \<^verbatim>\<open>a || b\<close>.\<close>

fun truthy :: "jsval \<Rightarrow> bool" where
  "truthy JUndefined = False"
| "truthy JNull = False"
| "truthy (JBoolean b) = b"
| "truthy (JNumber i) = (i \<noteq> 0)"
| "truthy (JBigInt i) = (i \<noteq> 0)"
| "truthy (JString s) = (s \<noteq> [])"
| "truthy (JArray xs) = True"
| "truthy (JObject es) = True"
| "truthy (JJsonable es r) = True"


section \<open>JSON text, with and without the bigint replacer\<close>

text \<open>
  \<^verbatim>\<open>JSON.stringify(value)\<close> and
  \<^verbatim>\<open>JSON.stringify(value, (_, v) => typeof v === 'bigint' ? v.toString() : v)\<close>.
  The replacer is the service's own; the traversal is the runtime's: each property value
  first has its \<^verbatim>\<open>toJSON()\<close> applied when it has one, then the replacer when one is given,
  and the outcome is printed by kind. A bigint that reaches the printer raises a
  TypeError, an \<^verbatim>\<open>undefined\<close> is left out of an object and printed as \<^verbatim>\<open>null\<close> in an
  array.
\<close>

definition hex_digit :: "nat \<Rightarrow> char" where
  "hex_digit d = ''0123456789abcdef'' ! d"

definition json_escape :: "char \<Rightarrow> string" where
  "json_escape c =
     (if c = CHR 0x22 then [CHR 0x5C, CHR 0x22]
      else if c = CHR 0x5C then [CHR 0x5C, CHR 0x5C]
      else if c = CHR 0x08 then [CHR 0x5C, CHR ''b'']
      else if c = CHR 0x0C then [CHR 0x5C, CHR ''f'']
      else if c = CHR 0x0A then [CHR 0x5C, CHR ''n'']
      else if c = CHR 0x0D then [CHR 0x5C, CHR ''r'']
      else if c = CHR 0x09 then [CHR 0x5C, CHR ''t'']
      else if (of_char c :: nat) < 32
        then [CHR 0x5C, CHR ''u'', CHR ''0'', CHR ''0'',
              hex_digit (of_char c div 16), hex_digit (of_char c mod 16)]
      else [c])"

definition json_quote :: "string \<Rightarrow> string" where
  "json_quote s = CHR 0x22 # concat (map json_escape s) @ [CHR 0x22]"

datatype json_out = JsonText string | JsonUndefined | JsonTypeError

definition bigint_replacer :: "jsval \<Rightarrow> jsval" where
  "bigint_replacer v = (case v of JBigInt i \<Rightarrow> JString (bigint_toString i) | _ \<Rightarrow> v)"

datatype replacer = NoReplacer | BigintReplacer

definition apply_replacer :: "replacer \<Rightarrow> jsval \<Rightarrow> jsval" where
  "apply_replacer rep v = (case rep of NoReplacer \<Rightarrow> v | BigintReplacer \<Rightarrow> bigint_replacer v)"

definition apply_toJSON :: "jsval \<Rightarrow> jsval" where
  "apply_toJSON v = (case v of JJsonable es r \<Rightarrow> r | _ \<Rightarrow> v)"

fun json_array :: "json_out list \<Rightarrow> string list option" where
  "json_array [] = Some []"
| "json_array (JsonTypeError # os) = None"
| "json_array (JsonUndefined # os) = map_option ((#) ''null'') (json_array os)"
| "json_array (JsonText s # os) = map_option ((#) s) (json_array os)"

fun json_members :: "(string \<times> json_out) list \<Rightarrow> string list option" where
  "json_members [] = Some []"
| "json_members ((k, JsonTypeError) # os) = None"
| "json_members ((k, JsonUndefined) # os) = json_members os"
| "json_members ((k, JsonText s) # os) =
     map_option ((#) (json_quote k @ '':'' @ s)) (json_members os)"

definition json_object_text :: "string list option \<Rightarrow> json_out" where
  "json_object_text m =
     (case m of None \<Rightarrow> JsonTypeError
      | Some ss \<Rightarrow> JsonText (''{'' @ join_strs '','' ss @ ''}''))"

definition json_array_text :: "string list option \<Rightarrow> json_out" where
  "json_array_text m =
     (case m of None \<Rightarrow> JsonTypeError
      | Some ss \<Rightarrow> JsonText (''['' @ join_strs '','' ss @ '']''))"

lemma apply_replacer_shape:
  "apply_replacer rep v = JArray xs \<Longrightarrow> v = JArray xs"
  "apply_replacer rep v = JObject es \<Longrightarrow> v = JObject es"
  "apply_replacer rep v = JJsonable es r \<Longrightarrow> v = JJsonable es r"
  by (auto simp: apply_replacer_def bigint_replacer_def split: jsval.splits replacer.splits)

lemma apply_toJSON_size: "size (apply_toJSON v) \<le> size v"
  by (cases v) (simp_all add: apply_toJSON_def)

function json_property :: "replacer \<Rightarrow> jsval \<Rightarrow> json_out"
  and json_elems :: "replacer \<Rightarrow> jsval list \<Rightarrow> json_out list"
  and json_entries :: "replacer \<Rightarrow> (string \<times> jsval) list \<Rightarrow> (string \<times> json_out) list"
where
  "json_property rep v =
     (case apply_replacer rep (apply_toJSON v) of
        JUndefined \<Rightarrow> JsonUndefined
      | JNull \<Rightarrow> JsonText ''null''
      | JBoolean b \<Rightarrow> JsonText (if b then ''true'' else ''false'')
      | JNumber i \<Rightarrow> JsonText (bigint_toString i)
      | JBigInt i \<Rightarrow> JsonTypeError
      | JString s \<Rightarrow> JsonText (json_quote s)
      | JArray xs \<Rightarrow> json_array_text (json_array (json_elems rep xs))
      | JObject es \<Rightarrow> json_object_text (json_members (json_entries rep es))
      | JJsonable es r \<Rightarrow> json_object_text (json_members (json_entries rep es)))"
| "json_elems rep [] = []"
| "json_elems rep (x # xs) = json_property rep x # json_elems rep xs"
| "json_entries rep [] = []"
| "json_entries rep ((k, x) # es) = (k, json_property rep x) # json_entries rep es"
  by pat_completeness auto

termination
proof (relation "measure (\<lambda>x. case x of
          Inl (rep, v) \<Rightarrow> 2 * size v + 1
        | Inr (Inl (rep, xs)) \<Rightarrow> 2 * size_list size xs + 2
        | Inr (Inr (rep, es)) \<Rightarrow> 2 * size_list (size_prod (\<lambda>_. 0) size) es + 2)", goal_cases)
  case 1
  show ?case by simp
next
  case (2 rep v xs)
  from 2 have "apply_toJSON v = JArray xs" by (rule apply_replacer_shape)
  with apply_toJSON_size [of v] show ?case by simp
next
  case (3 rep v es)
  from 3 have "apply_toJSON v = JObject es" by (rule apply_replacer_shape)
  with apply_toJSON_size [of v] show ?case by simp
next
  case (4 rep v es r)
  from 4 have "apply_toJSON v = JJsonable es r" by (rule apply_replacer_shape)
  with apply_toJSON_size [of v] show ?case by simp
qed simp_all

declare json_property.simps [simp del]

definition JSON_stringify :: "replacer \<Rightarrow> jsval \<Rightarrow> json_out" where
  "JSON_stringify rep v = json_property rep v"



section \<open>Thrown errors\<close>

text \<open>
  What a \<^verbatim>\<open>catch\<close> clause of the service receives: a schema violation raised by
  \<^verbatim>\<open>addressSchema.parse\<close> (a \<^verbatim>\<open>ZodError\<close> with the messages of its issues), or an
  \<^verbatim>\<open>Error\<close> object with its name, its message and, for the errors of the provider
  library, a \<^verbatim>\<open>code\<close> property. Every \<^verbatim>\<open>throw\<close> of the service raises
  \<^verbatim>\<open>new Error(message)\<close>.
\<close>

datatype js_error =
    ZodError (issues: "string list")
  | Error (err_name: string) (err_message: string) (err_code: "string option")

definition new_Error :: "string \<Rightarrow> js_error" where
  "new_Error msg = Error ''Error'' msg None"

definition new_TypeError :: "string \<Rightarrow> js_error" where
  "new_TypeError msg = Error ''TypeError'' msg None"


section \<open>serializeValue\<close>

text \<open>
  \<^verbatim>\<open>EthersService.serializeValue\<close>. The result is typed \<^verbatim>\<open>string\<close> in the source, but
  the \<^verbatim>\<open>toJSON\<close> branch returns whatever the method returns, so the model returns a
  runtime value. \<open>serializeValues\<close> is the callback of \<^verbatim>\<open>value.map\<close>, run element by
  element; the first raise ends it.
\<close>

fun serializeValue :: "jsval \<Rightarrow> js_error + jsval"
  and serializeValues :: "jsval list \<Rightarrow> js_error + jsval list"
where
  "serializeValue JUndefined = Inr (JString ''undefined'')"
| "serializeValue JNull = Inr (JString ''null'')"
| "serializeValue (JBigInt i) = Inr (JString (bigint_toString i))"
| "serializeValue (JArray xs) =
     (case serializeValues xs of
        Inl e \<Rightarrow> Inl e
      | Inr rs \<Rightarrow> Inr (JString (''['' @ array_join '', '' rs @ '']'')))"
| "serializeValue (JJsonable es r) = Inr r"
| "serializeValue (JObject es) =
     (case JSON_stringify BigintReplacer (JObject es) of
        JsonTypeError \<Rightarrow> Inl (new_TypeError ''Do not know how to serialize a BigInt'')
      | JsonUndefined \<Rightarrow> Inr JUndefined
      | JsonText s \<Rightarrow> Inr (JString s))"
| "serializeValue (JBoolean b) = Inr (JString (js_String (JBoolean b)))"
| "serializeValue (JNumber i) = Inr (JString (js_String (JNumber i)))"
| "serializeValue (JString s) = Inr (JString (js_String (JString s)))"
| "serializeValues [] = Inr []"
| "serializeValues (x # xs) =
     (case serializeValue x of
        Inl e \<Rightarrow> Inl e
      | Inr r \<Rightarrow>
          (case serializeValues xs of Inl e \<Rightarrow> Inl e | Inr rs \<Rightarrow> Inr (r # rs)))"

definition is_text :: "jsval \<Rightarrow> bool" where
  "is_text v = (case v of JString s \<Rightarrow> True | _ \<Rightarrow> False)"

text \<open>An object that exposes \<^verbatim>\<open>toJSON\<close> has it return text; any other value qualifies.\<close>

definition toJSON_text :: "jsval \<Rightarrow> bool" where
  "toJSON_text v = (case v of JJsonable es r \<Rightarrow> is_text r | _ \<Rightarrow> True)"


section \<open>handleProviderError\<close>

text \<open>
  \<^verbatim>\<open>EthersService.handleProviderError(error, context, details?)\<close> never returns: the
  model's result is the error it throws. \<open>detail_items\<close> is the
  \<^verbatim>\<open>Object.entries(details).map(([k, v]) => `${k}=${this.serializeValue(v)}`)\<close> of the
  source; \<^verbatim>\<open>err.message || String(error)\<close> falls back to the error's name when the message
  is empty.
\<close>

fun detail_items :: "(string \<times> jsval) list \<Rightarrow> js_error + string list" where
  "detail_items [] = Inr []"
| "detail_items ((k, v) # es) =
     (case serializeValue v of
        Inl e \<Rightarrow> Inl e
      | Inr r \<Rightarrow>
          (case detail_items es of
             Inl e \<Rightarrow> Inl e
           | Inr items \<Rightarrow> Inr ((k @ ''='' @ js_String r) # items)))"

definition address_hint :: string where
  "address_hint = ''. Expected a valid Ethereum address (0x followed by 40 hexadecimal characters)''"

fun handleProviderError ::
  "js_error \<Rightarrow> string \<Rightarrow> (string \<times> jsval) list option \<Rightarrow> js_error" where
  "handleProviderError (ZodError errors) context details =
     (let message =
        (case errors of
           [] \<Rightarrow> ''Invalid input format''
         | firstError # _ \<Rightarrow> if firstError = [] then ''Invalid input format'' else firstError)
      in new_Error (''Invalid input format: '' @ message @ address_hint))"
| "handleProviderError (Error name message (Some code)) context details =
     new_Error (''Failed to '' @ context @ '': Provider error: '' @ message)"
| "handleProviderError (Error name message None) context details =
     (let errorMessage = (if message = [] then name else message) in
      case details of
        None \<Rightarrow> new_Error (''Failed to '' @ context @ '': '' @ errorMessage)
      | Some es \<Rightarrow>
          (case detail_items es of
             Inl e \<Rightarrow> e
           | Inr items \<Rightarrow>
               new_Error (''Failed to '' @ context @ '': '' @ errorMessage
                          @ '' Details: '' @ join_strs '', '' items)))"



section \<open>Regular expressions of the input schemas\<close>

text \<open>
  The patterns the service tests its inputs against, with the matcher as derivatives.
  Both patterns are anchored at \<^verbatim>\<open>^\<close> and \<^verbatim>\<open>$\<close> and have no flags, so a test succeeds when
  the whole input matches.
\<close>

datatype rx =
    RZero
  | ROne
  | RAtom "char \<Rightarrow> bool"
  | RAlt rx rx
  | RSeq rx rx
  | RStar rx

fun nullable :: "rx \<Rightarrow> bool" where
  "nullable RZero = False"
| "nullable ROne = True"
| "nullable (RAtom p) = False"
| "nullable (RAlt r s) = (nullable r \<or> nullable s)"
| "nullable (RSeq r s) = (nullable r \<and> nullable s)"
| "nullable (RStar r) = True"

fun deriv :: "char \<Rightarrow> rx \<Rightarrow> rx" where
  "deriv c RZero = RZero"
| "deriv c ROne = RZero"
| "deriv c (RAtom p) = (if p c then ROne else RZero)"
| "deriv c (RAlt r s) = RAlt (deriv c r) (deriv c s)"
| "deriv c (RSeq r s) =
     (if nullable r then RAlt (RSeq (deriv c r) s) (deriv c s) else RSeq (deriv c r) s)"
| "deriv c (RStar r) = RSeq (deriv c r) (RStar r)"

fun regex_test :: "rx \<Rightarrow> string \<Rightarrow> bool" where
  "regex_test r [] = nullable r"
| "regex_test r (c # cs) = regex_test (deriv c r) cs"

fun rx_lit :: "string \<Rightarrow> rx" where
  "rx_lit [] = ROne"
| "rx_lit (c # cs) = RSeq (RAtom (\<lambda>x. x = c)) (rx_lit cs)"

fun rx_times :: "nat \<Rightarrow> rx \<Rightarrow> rx" where
  "rx_times 0 r = ROne"
| "rx_times (Suc n) r = RSeq r (rx_times n r)"

definition rx_opt :: "rx \<Rightarrow> rx" where
  "rx_opt r = RAlt r ROne"

definition rx_plus :: "rx \<Rightarrow> rx" where
  "rx_plus r = RSeq r (RStar r)"

text \<open>The class \<^verbatim>\<open>[a-fA-F0-9]\<close>, and \<^verbatim>\<open>.\<close>, which matches all but a line terminator.\<close>

definition hex_char :: "char \<Rightarrow> bool" where
  "hex_char c = (c \<in> set ''abcdefABCDEF0123456789'')"

definition dot_char :: "char \<Rightarrow> bool" where
  "dot_char c = (c \<noteq> CHR 0x0A \<and> c \<noteq> CHR 0x0D)"

text \<open>\<^verbatim>\<open>/^0x[a-fA-F0-9]{40}$/\<close>\<close>

definition address_regex :: rx where
  "address_regex = RSeq (rx_lit ''0x'') (rx_times 40 (RAtom hex_char))"

text \<open>\<^verbatim>\<open>/^https?:\/\/.+$/\<close>\<close>

definition rpc_url_regex :: rx where
  "rpc_url_regex =
     RSeq (rx_lit ''http'') (RSeq (rx_opt (rx_lit ''s''))
       (RSeq (rx_lit ''://'') (rx_plus (RAtom dot_char))))"

text \<open>The language of a pattern, to state what the matcher accepts.\<close>

definition conc :: "string set \<Rightarrow> string set \<Rightarrow> string set" where
  "conc A B = {u @ v | u v. u \<in> A \<and> v \<in> B}"

inductive_set star :: "string set \<Rightarrow> string set" for A :: "string set" where
  star_nil: "[] \<in> star A"
| star_app: "u \<in> A \<Longrightarrow> v \<in> star A \<Longrightarrow> u @ v \<in> star A"

fun lang :: "rx \<Rightarrow> string set" where
  "lang RZero = {}"
| "lang ROne = {[]}"
| "lang (RAtom p) = {[c] | c. p c}"
| "lang (RAlt r s) = lang r \<union> lang s"
| "lang (RSeq r s) = conc (lang r) (lang s)"
| "lang (RStar r) = star (lang r)"

text \<open>
  \<^verbatim>\<open>addressSchema.parse\<close>: the input itself when the pattern matches, a schema violation
  otherwise. The one issue of the violation carries the schema library's message for a
  failed pattern.
\<close>

definition zod_regex_message :: string where
  "zod_regex_message = ''Invalid''"

definition addressSchema_parse :: "string \<Rightarrow> js_error + string" where
  "addressSchema_parse s =
     (if regex_test address_regex s then Inr s else Inl (ZodError [zod_regex_message]))"

text \<open>The claim's wording of a well-formed address.\<close>

definition well_formed_address :: "string \<Rightarrow> bool" where
  "well_formed_address s =
     (\<exists>h. s = ''0x'' @ h \<and> length h = 40 \<and> list_all hex_char h)"

definition validateRpcUrl :: "string \<Rightarrow> js_error + unit" where
  "validateRpcUrl url =
     (if \<not> regex_test rpc_url_regex url
      then Inl (new_Error (''Invalid RPC URL format: '' @ url
             @ ''. URL must start with http:// or https:// and include a valid domain.''))
      else Inr ())"


section \<open>Environment, connections and credentials\<close>

text \<open>
  \<^verbatim>\<open>process.env\<close>: a variable is unset or holds a string; the empty string is falsy,
  like unset.
\<close>

record process_env =
  ALCHEMY_API_KEY :: "string option"
  INFURA_API_KEY :: "string option"
  PRIVATE_KEY :: "string option"

definition env_truthy :: "string option \<Rightarrow> bool" where
  "env_truthy v = (case v of None \<Rightarrow> False | Some s \<Rightarrow> s \<noteq> [])"

text \<open>
  A connection, by how it was made: the instance's preconfigured one, or one constructed
  by the provider library for a network name with an API key, or for a URL.
\<close>

datatype provider =
    Preconfigured nat
  | Alchemy string "string option"
  | Infura string string
  | JsonRpc string

datatype signer = Signer (signer_key: string) (signer_provider: "provider option")

text \<open>The fields \<^verbatim>\<open>_provider\<close> and \<^verbatim>\<open>_signer\<close> of an \<^verbatim>\<open>EthersService\<close>.\<close>

record service =
  svc_provider :: provider
  svc_signer :: "signer option"

text \<open>A function fragment of an interface description, as far as the service reads it.\<close>

record fragment =
  frag_constant :: bool
  frag_stateMutability :: string

text \<open>
  The provider library and the runtime's JSON parser, as far as these operations call
  them. A constructor either raises (\<open>Some\<close> error) or builds its object;
  \<open>lib_network_chainId\<close> is the read of \<^verbatim>\<open>(newProvider as any)._network?.chainId\<close>. The
  functions of a contract's interface take the interface description the contract was
  made from; \<open>lib_getFunction\<close> and \<open>lib_getEvent\<close> give \<open>None\<close> for a name that the
  description does not have (\<^verbatim>\<open>null\<close>), \<open>lib_getEvent\<close> otherwise the fragment's topic hash,
  and \<open>lib_parseLog\<close> gives the name and arguments of the decoded record.
\<close>

record ethers_lib =
  lib_AlchemyProvider :: "string \<Rightarrow> string option \<Rightarrow> js_error option"
  lib_InfuraProvider :: "string \<Rightarrow> string \<Rightarrow> js_error option"
  lib_JsonRpcProvider :: "string \<Rightarrow> js_error option"
  lib_network_chainId :: "provider \<Rightarrow> js_error + jsval"
  lib_Wallet :: "string \<Rightarrow> provider \<Rightarrow> js_error option"
  lib_parseEther :: "string \<Rightarrow> js_error + int"
  lib_formatEther :: "int \<Rightarrow> string"
  lib_getAddress :: "string \<Rightarrow> js_error + string"
  lib_JSON_parse :: "string \<Rightarrow> js_error + jsval"
  lib_Contract :: "string \<Rightarrow> jsval \<Rightarrow> js_error option"
  lib_getFunction :: "jsval \<Rightarrow> string \<Rightarrow> js_error + fragment option"
  lib_encodeFunctionData :: "jsval \<Rightarrow> string \<Rightarrow> jsval list \<Rightarrow> js_error + string"
  lib_getEvent :: "jsval \<Rightarrow> string \<Rightarrow> js_error + string option"
  lib_parseLog :: "jsval \<Rightarrow> jsval \<Rightarrow> jsval \<Rightarrow> js_error + (string \<times> jsval) option"

definition networkToEthersMap :: "(string \<times> string) list" where
  "networkToEthersMap =
     [(''Ethereum'', ''mainnet''),
      (''Polygon PoS'', ''matic''),
      (''Arbitrum'', ''arbitrum''),
      (''Arbitrum Nova'', ''arbitrum-nova''),
      (''Optimism'', ''optimism''),
      (''Avalanche C-Chain'', ''avalanche''),
      (''Base'', ''base''),
      (''BNB Smart Chain'', ''bnb''),
      (''Linea'', ''linea''),
      (''Polygon zkEVM'', ''polygon-zkevm'')]"

definition lower_char :: "char \<Rightarrow> char" where
  "lower_char c =
     (let n = (of_char c :: nat) in if 65 \<le> n \<and> n \<le> 90 then char_of (n + 32) else c)"

definition toLowerCase :: "string \<Rightarrow> string" where
  "toLowerCase s = map lower_char s"

definition getEthersNetworkName :: "string \<Rightarrow> string" where
  "getEthersNetworkName network =
     (case map_of networkToEthersMap network of
        Some name \<Rightarrow> name
      | None \<Rightarrow> toLowerCase network)"

text \<open>
  \<^verbatim>\<open>a !== b\<close> on the values a chain id can be: values of different types are never
  equal (a bigint never equals a number), and objects, compared by identity, are taken as
  distinct.
\<close>

fun strict_eq :: "jsval \<Rightarrow> jsval \<Rightarrow> bool" where
  "strict_eq JUndefined JUndefined = True"
| "strict_eq JNull JNull = True"
| "strict_eq (JBoolean a) (JBoolean b) = (a = b)"
| "strict_eq (JNumber a) (JNumber b) = (a = b)"
| "strict_eq (JBigInt a) (JBigInt b) = (a = b)"
| "strict_eq (JString a) (JString b) = (a = b)"
| "strict_eq _ _ = False"

definition chain_warning :: "int \<Rightarrow> jsval \<Rightarrow> string" where
  "chain_warning chainId providerChainId =
     ''Chain ID mismatch: specified '' @ js_String (JNumber chainId)
     @ '' but provider network is '' @ js_String providerChainId
     @ '', using provider's chain ID''"

text \<open>
  The block \<^verbatim>\<open>if (chainId) { ... console.warn(...) }\<close> that follows both constructions in
  \<^verbatim>\<open>getProvider\<close>: the result is the list of warnings written to the console.
\<close>

definition check_chainId ::
  "ethers_lib \<Rightarrow> provider \<Rightarrow> int option \<Rightarrow> (js_error + unit) \<times> string list" where
  "check_chainId lib newProvider chainId =
     (case chainId of
        None \<Rightarrow> (Inr (), [])
      | Some h \<Rightarrow>
          if h = 0 then (Inr (), [])
          else
            (case lib_network_chainId lib newProvider of
               Inl e \<Rightarrow> (Inl e, [])
             | Inr providerChainId \<Rightarrow>
                 if truthy providerChainId \<and> \<not> strict_eq providerChainId (JNumber h)
                 then (Inr (), [chain_warning h providerChainId])
                 else (Inr (), [])))"

definition invalid_provider_message :: "string list \<Rightarrow> string \<Rightarrow> string" where
  "invalid_provider_message DEFAULT_PROVIDERS provider =
     ''Invalid provider: '' @ provider @ ''. Must be either:'' @ [CHR 0x0A]
     @ ''1. A supported network name ('' @ join_strs '', '' DEFAULT_PROVIDERS @ '')'' @ [CHR 0x0A]
     @ ''2. A valid RPC URL starting with http:// or https://''"

text \<open>
  \<^verbatim>\<open>EthersService.getProvider(provider?, chainId?)\<close> of \<^verbatim>\<open>src/index.ts\<close>. The list
  \<open>DEFAULT_PROVIDERS\<close> is imported from \<^verbatim>\<open>config/networks\<close> and is a parameter here.
\<close>

definition getProvider ::
  "ethers_lib \<Rightarrow> string list \<Rightarrow> process_env \<Rightarrow> service \<Rightarrow> string option \<Rightarrow> int option
     \<Rightarrow> (js_error + provider) \<times> string list" where
  "getProvider lib DEFAULT_PROVIDERS env svc provider chainId =
     (case provider of
        None \<Rightarrow> (Inr (svc_provider svc), [])
      | Some p \<Rightarrow>
          if p = [] then (Inr (svc_provider svc), [])
          else if p \<in> set DEFAULT_PROVIDERS then
            (let context = ''create Alchemy provider for network '' @ p;
                 networkName = getEthersNetworkName p
             in case lib_AlchemyProvider lib networkName (ALCHEMY_API_KEY env) of
                  Some e \<Rightarrow> (Inl (handleProviderError e context None), [])
                | None \<Rightarrow>
                    (let newProvider = Alchemy networkName (ALCHEMY_API_KEY env)
                     in case check_chainId lib newProvider chainId of
                          (Inl e, ws) \<Rightarrow> (Inl (handleProviderError e context None), ws)
                        | (Inr u, ws) \<Rightarrow> (Inr newProvider, ws)))
          else if take 4 p = ''http'' then
            (let context = ''create provider with RPC URL '' @ p
             in case validateRpcUrl p of
                  Inl e \<Rightarrow> (Inl (handleProviderError e context None), [])
                | Inr u \<Rightarrow>
                    (case lib_JsonRpcProvider lib p of
                       Some e \<Rightarrow> (Inl (handleProviderError e context None), [])
                     | None \<Rightarrow>
                         (let newProvider = JsonRpc p
                          in case check_chainId lib newProvider chainId of
                               (Inl e, ws) \<Rightarrow> (Inl (handleProviderError e context None), ws)
                             | (Inr u, ws) \<Rightarrow> (Inr newProvider, ws))))
          else (Inl (new_Error (invalid_provider_message DEFAULT_PROVIDERS p)), []))"

text \<open>
  \<^verbatim>\<open>getAlchemyApiKey\<close> and \<^verbatim>\<open>createAlchemyProvider\<close> of \<^verbatim>\<open>src/index.ts\<close>: private methods
  that no other method of the class calls.
\<close>

definition getAlchemyApiKey :: "process_env \<Rightarrow> js_error + string" where
  "getAlchemyApiKey env =
     (case ALCHEMY_API_KEY env of
        None \<Rightarrow> Inl (new_Error ''Missing ALCHEMY_API_KEY in environment variables.'')
      | Some alchemyApiKey \<Rightarrow>
          if alchemyApiKey = []
          then Inl (new_Error ''Missing ALCHEMY_API_KEY in environment variables.'')
          else Inr alchemyApiKey)"

definition createAlchemyProvider :: "ethers_lib \<Rightarrow> process_env \<Rightarrow> string \<Rightarrow> js_error + provider" where
  "createAlchemyProvider lib env network =
     (let context = ''create Alchemy provider for network '' @ network
      in case getAlchemyApiKey env of
           Inl e \<Rightarrow> Inl (handleProviderError e context None)
         | Inr key \<Rightarrow>
             (case lib_AlchemyProvider lib network (Some key) of
                Some e \<Rightarrow> Inl (handleProviderError e context None)
              | None \<Rightarrow> Inr (Alchemy network (Some key))))"

text \<open>
  The earlier service of \<^verbatim>\<open>src/services/ethersService.ts\<close>, with its own list of
  networks: \<^verbatim>\<open>getInfuraApiKey\<close>, \<^verbatim>\<open>createInfuraProvider\<close> and \<^verbatim>\<open>getProvider(provider?)\<close>.
\<close>

definition DEFAULT_PROVIDERS_services :: "string list" where
  "DEFAULT_PROVIDERS_services =
     [''mainnet'', ''sepolia'', ''goerli'', ''arbitrum'', ''optimism'', ''base'', ''polygon'']"

definition getInfuraApiKey :: "process_env \<Rightarrow> js_error + string" where
  "getInfuraApiKey env =
     (case INFURA_API_KEY env of
        None \<Rightarrow> Inl (new_Error ''Missing INFURA_API_KEY in environment variables.'')
      | Some infuraApiKey \<Rightarrow>
          if infuraApiKey = []
          then Inl (new_Error ''Missing INFURA_API_KEY in environment variables.'')
          else Inr infuraApiKey)"

definition createInfuraProvider :: "ethers_lib \<Rightarrow> process_env \<Rightarrow> string \<Rightarrow> js_error + provider" where
  "createInfuraProvider lib env network =
     (let context = ''create Infura provider for network '' @ network
      in case getInfuraApiKey env of
           Inl e \<Rightarrow> Inl (handleProviderError e context None)
         | Inr key \<Rightarrow>
             (case lib_InfuraProvider lib network key of
                Some e \<Rightarrow> Inl (handleProviderError e context None)
              | None \<Rightarrow> Inr (Infura network key)))"

definition getProvider_services ::
  "ethers_lib \<Rightarrow> process_env \<Rightarrow> provider \<Rightarrow> string option \<Rightarrow> js_error + provider" where
  "getProvider_services lib env defaultProvider provider =
     (case provider of
        None \<Rightarrow> Inr defaultProvider
      | Some p \<Rightarrow>
          if p = [] then Inr defaultProvider
          else if p \<in> set DEFAULT_PROVIDERS_services then
            (case createInfuraProvider lib env p of
               Inl e \<Rightarrow>
                 Inl (handleProviderError e (''create Infura provider for network '' @ p) None)
             | Inr newProvider \<Rightarrow> Inr newProvider)
          else if take 4 p = ''http'' then
            (let context = ''create provider with RPC URL '' @ p
             in case validateRpcUrl p of
                  Inl e \<Rightarrow> Inl (handleProviderError e context None)
                | Inr u \<Rightarrow>
                    (case lib_JsonRpcProvider lib p of
                       Some e \<Rightarrow> Inl (handleProviderError e context None)
                     | None \<Rightarrow> Inr (JsonRpc p)))
          else Inl (new_Error (invalid_provider_message DEFAULT_PROVIDERS_services p)))"

text \<open>
  \<^verbatim>\<open>EthersService.getSigner(provider?, chainId?, signerOverride?)\<close> of \<^verbatim>\<open>src/index.ts\<close>;
  it has no \<^verbatim>\<open>catch\<close> of its own, so an error of \<open>getProvider\<close> or of the wallet's
  constructor leaves it unchanged.
\<close>

definition missing_private_key_message :: string where
  "missing_private_key_message =
     ''Missing PRIVATE_KEY in environment variables. Either provide a signer in the constructor or set PRIVATE_KEY in environment variables.''"

definition getSigner ::
  "ethers_lib \<Rightarrow> string list \<Rightarrow> process_env \<Rightarrow> service \<Rightarrow> string option \<Rightarrow> int option
     \<Rightarrow> signer option \<Rightarrow> (js_error + signer) \<times> string list" where
  "getSigner lib DEFAULT_PROVIDERS env svc provider chainId signerOverride =
     (case signerOverride of
        Some s \<Rightarrow> (Inr s, [])
      | None \<Rightarrow>
          (case svc_signer svc of
             Some s \<Rightarrow> (Inr s, [])
           | None \<Rightarrow>
               (case PRIVATE_KEY env of
                  None \<Rightarrow> (Inl (new_Error missing_private_key_message), [])
                | Some privateKey \<Rightarrow>
                    if privateKey = []
                    then (Inl (new_Error missing_private_key_message), [])
                    else
                      (case getProvider lib DEFAULT_PROVIDERS env svc provider chainId of
                         (Inl e, ws) \<Rightarrow> (Inl e, ws)
                       | (Inr selectedProvider, ws) \<Rightarrow>
                           (case lib_Wallet lib privateKey selectedProvider of
                              Some e \<Rightarrow> (Inl e, ws)
                            | None \<Rightarrow>
                                (Inr (Signer privateKey (Some selectedProvider)), ws))))))"

text \<open>
  A stub of the library for the concrete examples: every constructor succeeds, a
  connection reports chain id 1 as a bigint, \<^verbatim>\<open>parseEther\<close> knows the amounts \<^verbatim>\<open>0\<close> and
  \<^verbatim>\<open>1\<close>, and the interface description has the functions \<^verbatim>\<open>transfer\<close> and \<^verbatim>\<open>balanceOf\<close> and the event
  \<^verbatim>\<open>Transfer\<close>, whose records decode unless their data is \<^verbatim>\<open>0xbad\<close>.
\<close>

definition stub_lib :: ethers_lib where
  "stub_lib = \<lparr>
     lib_AlchemyProvider = (\<lambda>name key. None),
     lib_InfuraProvider = (\<lambda>name key. None),
     lib_JsonRpcProvider = (\<lambda>url. None),
     lib_network_chainId = (\<lambda>p. Inr (JBigInt 1)),
     lib_Wallet = (\<lambda>key p. None),
     lib_parseEther =
       (\<lambda>s. if s = ''0'' then Inr 0
            else if s = ''1'' then Inr (10 ^ 18)
            else Inl (Error ''TypeError'' ''invalid FixedNumber string value''
                       (Some ''INVALID_ARGUMENT''))),
     lib_formatEther = (\<lambda>i. bigint_toString i),
     lib_getAddress = (\<lambda>s. Inr s),
     lib_JSON_parse = (\<lambda>s. Inr (JArray [JString s])),
     lib_Contract = (\<lambda>address abi. None),
     lib_getFunction =
       (\<lambda>abi name.
          if name = ''transfer''
          then Inr (Some \<lparr> frag_constant = False, frag_stateMutability = ''nonpayable'' \<rparr>)
          else if name = ''balanceOf''
          then Inr (Some \<lparr> frag_constant = True, frag_stateMutability = ''view'' \<rparr>)
          else Inr None),
     lib_encodeFunctionData = (\<lambda>abi name args. Inr ''0xa9059cbb''),
     lib_getEvent = (\<lambda>abi name. if name = ''Transfer'' then Inr (Some ''0xddf252ad'') else Inr None),
     lib_parseLog =
       (\<lambda>abi topics data.
          if data = JString ''0xbad''
          then Inl (Error ''Error'' ''data out-of-bounds'' (Some ''BUFFER_OVERRUN''))
          else Inr (Some (''Transfer'', JArray [JBigInt 7])))
   \<rparr>"

definition stub_env :: process_env where
  "stub_env = \<lparr> ALCHEMY_API_KEY = None, INFURA_API_KEY = None, PRIVATE_KEY = None \<rparr>"

definition stub_service :: service where
  "stub_service = \<lparr> svc_provider = Preconfigured 0, svc_signer = None \<rparr>"


section \<open>Objects\<close>

text \<open>
  An object literal is built entry by entry: a key that is already there keeps its place
  and takes the new value, a new key goes to the end. \<open>obj_spread target source\<close> is
  \<^verbatim>\<open>{...target, ...source}\<close>.
\<close>

type_synonym js_object = "(string \<times> jsval) list"

fun obj_set :: "string \<Rightarrow> jsval \<Rightarrow> js_object \<Rightarrow> js_object" where
  "obj_set k v [] = [(k, v)]"
| "obj_set k v ((k', v') # es) = (if k' = k then (k, v) # es else (k', v') # obj_set k v es)"

fun obj_spread :: "js_object \<Rightarrow> js_object \<Rightarrow> js_object" where
  "obj_spread target [] = target"
| "obj_spread target ((k, v) # es) = obj_spread (obj_set k v target) es"

definition obj_get :: "js_object \<Rightarrow> string \<Rightarrow> jsval" where
  "obj_get es k = (case map_of es k of Some v \<Rightarrow> v | None \<Rightarrow> JUndefined)"

text \<open>The spread of an optional object: \<^verbatim>\<open>undefined\<close> contributes nothing.\<close>

definition spread_optional :: "js_object \<Rightarrow> js_object option \<Rightarrow> js_object" where
  "spread_optional target source =
     (case source of None \<Rightarrow> target | Some es \<Rightarrow> obj_spread target es)"

text \<open>A property read \<^verbatim>\<open>v.k\<close> on a value that is an object.\<close>

definition js_get :: "jsval \<Rightarrow> string \<Rightarrow> jsval" where
  "js_get v k =
     (case v of JObject es \<Rightarrow> obj_get es k | JJsonable es r \<Rightarrow> obj_get es k | _ \<Rightarrow> JUndefined)"

definition own_entries :: "jsval \<Rightarrow> js_object" where
  "own_entries v = (case v of JObject es \<Rightarrow> es | JJsonable es r \<Rightarrow> es | _ \<Rightarrow> [])"

text \<open>
  The assignment \<^verbatim>\<open>serialized[key] = value\<close> on an object made by \<^verbatim>\<open>{}\<close>: the key
  \<^verbatim>\<open>__proto__\<close> reaches the prototype's setter and adds no entry.
\<close>

definition obj_assign :: "string \<Rightarrow> jsval \<Rightarrow> js_object \<Rightarrow> js_object" where
  "obj_assign k v es = (if k = ''__proto__'' then es else obj_set k v es)"


section \<open>serializeEventArgs\<close>

text \<open>
  \<^verbatim>\<open>EthersService.serializeEventArgs\<close>. \<open>serialize_entries\<close> is its loop over
  \<^verbatim>\<open>Object.entries(args)\<close>, with the object \<^verbatim>\<open>serialized\<close> as accumulator. The loop's
  first test, for the key \<^verbatim>\<open>length\<close> of an array, never holds there: arrays have returned
  before. A function is returned as it is, so the entry \<^verbatim>\<open>toJSON\<close> of an object is copied
  unchanged, and the copy returns what the original returns.
\<close>

definition skipped_key :: "string \<Rightarrow> bool" where
  "skipped_key key = (key = ''_isBigNumber'' \<or> key = ''type'' \<or> key = ''hash'')"

fun serializeEventArgs :: "jsval \<Rightarrow> jsval"
  and serialize_entries :: "js_object \<Rightarrow> js_object \<Rightarrow> js_object"
where
  "serializeEventArgs JNull = JNull"
| "serializeEventArgs JUndefined = JUndefined"
| "serializeEventArgs (JBigInt i) = JString (bigint_toString i)"
| "serializeEventArgs (JArray xs) = JArray (map serializeEventArgs xs)"
| "serializeEventArgs (JObject es) = JObject (serialize_entries es [])"
| "serializeEventArgs (JJsonable es r) = JJsonable (serialize_entries es []) r"
| "serializeEventArgs (JBoolean b) = JBoolean b"
| "serializeEventArgs (JNumber n) = JNumber n"
| "serializeEventArgs (JString s) = JString s"
| "serialize_entries [] serialized = serialized"
| "serialize_entries ((key, value) # es) serialized =
     (if skipped_key key then serialize_entries es serialized
      else serialize_entries es (obj_assign key (serializeEventArgs value) serialized))"





section \<open>Operations and their effects\<close>

text \<open>
  An asynchronous operation is modelled by its outcome, the error it rejects with or the
  value it resolves to, together with what it did on the way, in order: warnings written
  to the console, calls of a connection's or a signer's network methods, and calls into
  the token modules.
\<close>

datatype effect =
    Warn string
  | NetGetBalance provider string
  | NetStaticCall provider string string "jsval list"
  | NetGetLogs provider js_object
  | NetSendTransaction signer js_object
  | NetContractCall signer string string "jsval list" js_object
  | TokenModuleCall string "string list"

type_synonym 'a io = "(js_error + 'a) \<times> effect list"

definition is_network :: "effect \<Rightarrow> bool" where
  "is_network eff = (case eff of Warn w \<Rightarrow> False | _ \<Rightarrow> True)"

definition network_calls :: "effect list \<Rightarrow> effect list" where
  "network_calls effs = filter is_network effs"

definition io_pure :: "'a \<Rightarrow> 'a io" where
  "io_pure x = (Inr x, [])"

definition io_throw :: "js_error \<Rightarrow> 'a io" where
  "io_throw e = (Inl e, [])"

text \<open>A step that computes locally and may raise.\<close>

definition io_lift :: "js_error + 'a \<Rightarrow> 'a io" where
  "io_lift r = (r, [])"

definition io_ctor :: "js_error option \<Rightarrow> unit io" where
  "io_ctor r = (case r of Some e \<Rightarrow> (Inl e, []) | None \<Rightarrow> (Inr (), []))"

text \<open>An awaited network call, recorded with its reply.\<close>

definition io_net :: "effect \<Rightarrow> js_error + 'a \<Rightarrow> 'a io" where
  "io_net eff reply = (reply, [eff])"

text \<open>A call of \<open>getProvider\<close> or \<open>getSigner\<close>, whose warnings are recorded.\<close>

definition io_warns :: "(js_error + 'a) \<times> string list \<Rightarrow> 'a io" where
  "io_warns r = (fst r, map Warn (snd r))"

definition io_bind :: "'a io \<Rightarrow> ('a \<Rightarrow> 'b io) \<Rightarrow> 'b io" where
  "io_bind m f =
     (case m of
        (Inl e, effs) \<Rightarrow> (Inl e, effs)
      | (Inr x, effs) \<Rightarrow> (case f x of (r, effs') \<Rightarrow> (r, effs @ effs')))"

text \<open>
  \<^verbatim>\<open>try { ... } catch (error) { this.handleProviderError(error, context, details) }\<close>. The
  details are an object literal evaluated in the \<^verbatim>\<open>catch\<close> block, before the call, so
  an expression of theirs that raises replaces the error.
\<close>

definition io_catch :: "'a io \<Rightarrow> string \<Rightarrow> js_error + js_object \<Rightarrow> 'a io" where
  "io_catch m context details =
     (case m of
        (Inl e, effs) \<Rightarrow>
          (case details of
             Inl e' \<Rightarrow> (Inl e', effs)
           | Inr d \<Rightarrow> (Inl (handleProviderError e context (Some d)), effs))
      | (Inr x, effs) \<Rightarrow> (Inr x, effs))"

text \<open>
  The same with \<^verbatim>\<open>if (error instanceof TokenError) { throw error; }\<close> first, as the token
  operations have it. A \<^verbatim>\<open>TokenError\<close> is an error of that name.
\<close>

definition is_TokenError :: "js_error \<Rightarrow> bool" where
  "is_TokenError e = (case e of Error name message code \<Rightarrow> name = ''TokenError'' | _ \<Rightarrow> False)"

definition io_catch_token :: "'a io \<Rightarrow> string \<Rightarrow> js_error + js_object \<Rightarrow> 'a io" where
  "io_catch_token m context details =
     (case m of
        (Inl e, effs) \<Rightarrow>
          if is_TokenError e then (Inl e, effs)
          else
            (case details of
               Inl e' \<Rightarrow> (Inl e', effs)
             | Inr d \<Rightarrow> (Inl (handleProviderError e context (Some d)), effs))
      | (Inr x, effs) \<Rightarrow> (Inr x, effs))"

text \<open>
  The replies of the network to the calls of a connection, of a signer and of a contract,
  and the functions of the module \<^verbatim>\<open>erc/erc20\<close> that the token operations delegate to,
  each with the effects it has.
\<close>

record raw_log =
  log_address :: string
  log_blockNumber :: "int option"
  log_transactionHash :: string
  log_index :: int
  log_data :: string
  log_topics :: "string list"
  log_event :: "(string \<times> jsval) option"

record network =
  net_getBalance :: "provider \<Rightarrow> string \<Rightarrow> js_error + int"
  net_staticCall :: "provider \<Rightarrow> string \<Rightarrow> string \<Rightarrow> jsval list \<Rightarrow> js_error + jsval"
  net_getLogs :: "provider \<Rightarrow> js_object \<Rightarrow> js_error + raw_log list"
  net_sendTransaction :: "signer \<Rightarrow> js_object \<Rightarrow> js_error + jsval"
  net_contractCall ::
    "signer \<Rightarrow> string \<Rightarrow> string \<Rightarrow> jsval list \<Rightarrow> js_object \<Rightarrow> js_error + jsval"
  erc20_getBalance :: "string \<Rightarrow> string \<Rightarrow> string option \<Rightarrow> int option \<Rightarrow> string io"
  erc20_transfer ::
    "string \<Rightarrow> string \<Rightarrow> string \<Rightarrow> string option \<Rightarrow> int option \<Rightarrow> js_object \<Rightarrow> jsval io"

text \<open>
  The text \<^verbatim>\<open>JSON.stringify(v)\<close> as a value: a string, or \<^verbatim>\<open>undefined\<close>; a bigint in
  \<open>v\<close> raises.
\<close>

definition js_JSON_stringify :: "jsval \<Rightarrow> js_error + jsval" where
  "js_JSON_stringify v =
     (case JSON_stringify NoReplacer v of
        JsonTypeError \<Rightarrow> Inl (new_TypeError ''Do not know how to serialize a BigInt'')
      | JsonUndefined \<Rightarrow> Inr JUndefined
      | JsonText s \<Rightarrow> Inr (JString s))"

text \<open>Building a details object from entries whose expressions may raise, in order.\<close>

fun details_of :: "(string \<times> (js_error + jsval)) list \<Rightarrow> js_error + js_object" where
  "details_of [] = Inr []"
| "details_of ((k, Inl e) # es) = Inl e"
| "details_of ((k, Inr v) # es) =
     (case details_of es of Inl e \<Rightarrow> Inl e | Inr d \<Rightarrow> Inr ((k, v) # d))"

text \<open>\<^verbatim>\<open>getBalance(address, provider?, chainId?)\<close>\<close>

definition getBalance ::
  "ethers_lib \<Rightarrow> network \<Rightarrow> string list \<Rightarrow> process_env \<Rightarrow> service
     \<Rightarrow> string \<Rightarrow> string option \<Rightarrow> int option \<Rightarrow> string io" where
  "getBalance lib net DEFAULT_PROVIDERS env svc address provider chainId =
     io_catch
       (io_bind (io_lift (addressSchema_parse address)) (\<lambda>parsed.
        io_bind (io_warns (getProvider lib DEFAULT_PROVIDERS env svc provider chainId))
          (\<lambda>selectedProvider.
        io_bind (io_net (NetGetBalance selectedProvider address)
                   (net_getBalance net selectedProvider address)) (\<lambda>balance.
        io_pure (lib_formatEther lib balance)))))
       ''fetch balance''
       (details_of [(''address'', Inr (JString address))])"

text \<open>
  \<^verbatim>\<open>getERC20Balance(tokenAddress, ownerAddress, provider?, chainId?)\<close>, the later of the
  class's two methods of that name, which is the one an instance has.
\<close>

definition getERC20Balance ::
  "network \<Rightarrow> string \<Rightarrow> string \<Rightarrow> string option \<Rightarrow> int option \<Rightarrow> string io" where
  "getERC20Balance net tokenAddress ownerAddress provider chainId =
     io_catch_token
       (io_bind (io_lift (addressSchema_parse tokenAddress)) (\<lambda>parsed.
        io_bind (io_lift (addressSchema_parse ownerAddress)) (\<lambda>parsed'.
        erc20_getBalance net tokenAddress ownerAddress provider chainId)))
       ''get ERC20 balance''
       (details_of [(''tokenAddress'', Inr (JString tokenAddress)),
                    (''ownerAddress'', Inr (JString ownerAddress))])"

text \<open>\<^verbatim>\<open>transferERC20(tokenAddress, recipientAddress, amount, provider?, chainId?, options)\<close>\<close>

definition transferERC20 ::
  "network \<Rightarrow> string \<Rightarrow> string \<Rightarrow> string \<Rightarrow> string option \<Rightarrow> int option \<Rightarrow> js_object
     \<Rightarrow> jsval io" where
  "transferERC20 net tokenAddress recipientAddress amount provider chainId options =
     io_catch_token
       (io_bind (io_lift (addressSchema_parse tokenAddress)) (\<lambda>parsed.
        io_bind (io_lift (addressSchema_parse recipientAddress)) (\<lambda>parsed'.
        erc20_transfer net tokenAddress recipientAddress amount provider chainId options)))
       ''transfer ERC20 tokens''
       (details_of [(''tokenAddress'', Inr (JString tokenAddress)),
                    (''recipientAddress'', Inr (JString recipientAddress)),
                    (''amount'', Inr (JString amount))])"

text \<open>
  The interface description handed to \<^verbatim>\<open>contractCall\<close> and \<^verbatim>\<open>contractCallView\<close> is a
  JSON string, which is parsed, or an array, which is used as it is.
\<close>

definition parse_abi :: "ethers_lib \<Rightarrow> jsval \<Rightarrow> js_error + jsval" where
  "parse_abi lib abi =
     (case abi of
        JString s \<Rightarrow>
          (case lib_JSON_parse lib s of
             Inl e \<Rightarrow>
               Inl (new_Error (''Invalid ABI: '' @ s
                      @ ''. The ABI must be a valid JSON string or array of strings''))
           | Inr parsedAbi \<Rightarrow> Inr parsedAbi)
      | _ \<Rightarrow> Inr abi)"

definition abi_detail :: "jsval \<Rightarrow> js_error + jsval" where
  "abi_detail abi = (case abi of JString s \<Rightarrow> Inr (JString s) | _ \<Rightarrow> js_JSON_stringify abi)"

definition find_function :: "ethers_lib \<Rightarrow> jsval \<Rightarrow> string \<Rightarrow> js_error + fragment" where
  "find_function lib abi method =
     (case lib_getFunction lib abi method of
        Inl e \<Rightarrow> Inl e
      | Inr None \<Rightarrow> Inl (new_Error (''Method '' @ method @ '' not found in contract ABI''))
      | Inr (Some fragment) \<Rightarrow> Inr fragment)"

definition is_view :: "fragment \<Rightarrow> bool" where
  "is_view fragment =
     (frag_constant fragment \<or> frag_stateMutability fragment = ''view''
      \<or> frag_stateMutability fragment = ''pure'')"

text \<open>\<^verbatim>\<open>contractCall(contractAddress, abi, method, args, provider?, chainId?)\<close>\<close>

definition contractCall ::
  "ethers_lib \<Rightarrow> network \<Rightarrow> string list \<Rightarrow> process_env \<Rightarrow> service
     \<Rightarrow> string \<Rightarrow> jsval \<Rightarrow> string \<Rightarrow> jsval list \<Rightarrow> string option \<Rightarrow> int option \<Rightarrow> jsval io" where
  "contractCall lib net DEFAULT_PROVIDERS env svc contractAddress abi method args provider chainId =
     io_catch
       (io_bind (io_lift (addressSchema_parse contractAddress)) (\<lambda>parsed.
        io_bind (io_warns (getProvider lib DEFAULT_PROVIDERS env svc provider chainId))
          (\<lambda>selectedProvider.
        io_bind (io_lift (parse_abi lib abi)) (\<lambda>parsedAbi.
        io_bind (io_ctor (lib_Contract lib contractAddress parsedAbi)) (\<lambda>contract.
        io_bind (io_lift (find_function lib parsedAbi method)) (\<lambda>fragment.
        if is_view fragment then
          io_bind (io_net (NetStaticCall selectedProvider contractAddress method args)
                     (net_staticCall net selectedProvider contractAddress method args))
            (\<lambda>result. io_pure (serializeEventArgs result))
        else
          io_throw (new_Error (''Use contractSendTransaction for state-changing function: ''
                                @ method))))))))
       (''call contract method: '' @ method)
       (details_of [(''contractAddress'', Inr (JString contractAddress)),
                    (''abi'', abi_detail abi),
                    (''args'', serializeValue (JArray args))])"

text \<open>\<^verbatim>\<open>contractCallView(contractAddress, abi, method, args, provider?, chainId?)\<close>\<close>

definition contractCallView ::
  "ethers_lib \<Rightarrow> network \<Rightarrow> string list \<Rightarrow> process_env \<Rightarrow> service
     \<Rightarrow> string \<Rightarrow> jsval \<Rightarrow> string \<Rightarrow> jsval list \<Rightarrow> string option \<Rightarrow> int option \<Rightarrow> jsval io" where
  "contractCallView lib net DEFAULT_PROVIDERS env svc contractAddress abi method args provider
       chainId =
     io_catch
       (io_bind (io_lift (addressSchema_parse contractAddress)) (\<lambda>parsed.
        io_bind (io_warns (getProvider lib DEFAULT_PROVIDERS env svc provider chainId))
          (\<lambda>selectedProvider.
        io_bind (io_lift (parse_abi lib abi)) (\<lambda>parsedAbi.
        io_bind (io_ctor (lib_Contract lib contractAddress parsedAbi)) (\<lambda>contract.
        io_bind (io_lift (find_function lib parsedAbi method)) (\<lambda>fragment.
        if \<not> is_view fragment then
          io_throw (new_Error (''Use contractSendTransaction for state-changing function: ''
                                @ method))
        else
          io_bind (io_net (NetStaticCall selectedProvider contractAddress method args)
                     (net_staticCall net selectedProvider contractAddress method args))
            (\<lambda>result. io_pure (serializeEventArgs result))))))))
       (''call contract view method: '' @ method)
       (details_of [(''contractAddress'', Inr (JString contractAddress)),
                    (''abi'', abi_detail abi),
                    (''args'', serializeValue (JArray args))])"


text \<open>
  The three contract write operations that take overrides. The interface description goes
  to the contract's constructor as it is given.
  \<^verbatim>\<open>contractCallWithOverrides(contractAddress, abi, method, args, value, provider?, overrides?)\<close>
  merges \<^verbatim>\<open>{...overrides, value: parsedValue}\<close> and calls the contract's method with it.
\<close>

definition optional_object :: "js_object option \<Rightarrow> jsval" where
  "optional_object overrides = (case overrides of None \<Rightarrow> JUndefined | Some es \<Rightarrow> JObject es)"

definition contractCallWithOverrides ::
  "ethers_lib \<Rightarrow> network \<Rightarrow> string list \<Rightarrow> process_env \<Rightarrow> service
     \<Rightarrow> string \<Rightarrow> jsval \<Rightarrow> string \<Rightarrow> jsval list \<Rightarrow> string \<Rightarrow> string option
     \<Rightarrow> js_object option \<Rightarrow> jsval io" where
  "contractCallWithOverrides lib net DEFAULT_PROVIDERS env svc contractAddress abi method args
       value provider overrides =
     io_catch
       (io_bind (io_lift (addressSchema_parse contractAddress)) (\<lambda>parsed.
        io_bind (io_warns (getSigner lib DEFAULT_PROVIDERS env svc provider None None))
          (\<lambda>signer.
        io_bind (io_ctor (lib_Contract lib contractAddress abi)) (\<lambda>contract.
        io_bind (io_lift (lib_parseEther lib value)) (\<lambda>parsedValue.
        io_bind (io_lift (find_function lib abi method)) (\<lambda>fragment.
        (let txOverrides = obj_set ''value'' (JBigInt parsedValue) (spread_optional [] overrides)
         in io_net (NetContractCall signer contractAddress method args txOverrides)
              (net_contractCall net signer contractAddress method args txOverrides))))))))
       (''call contract method with overrides: '' @ method)
       (details_of [(''contractAddress'', Inr (JString contractAddress)),
                    (''abi'', js_JSON_stringify abi),
                    (''args'', serializeValue (JArray args)),
                    (''value'', Inr (JString value)),
                    (''overrides'', serializeValue (optional_object overrides))])"

text \<open>
  \<^verbatim>\<open>contractSendTransaction(contractAddress, abi, method, args, value, provider?, overrides?)\<close>
  builds \<^verbatim>\<open>{ to: contractAddress, data, value: parsedValue, ...overrides }\<close> and hands it to
  the signer.
\<close>

definition contractSendTransaction ::
  "ethers_lib \<Rightarrow> network \<Rightarrow> string list \<Rightarrow> process_env \<Rightarrow> service
     \<Rightarrow> string \<Rightarrow> jsval \<Rightarrow> string \<Rightarrow> jsval list \<Rightarrow> string \<Rightarrow> string option
     \<Rightarrow> js_object option \<Rightarrow> jsval io" where
  "contractSendTransaction lib net DEFAULT_PROVIDERS env svc contractAddress abi method args
       value provider overrides =
     io_catch
       (io_bind (io_lift (addressSchema_parse contractAddress)) (\<lambda>parsed.
        io_bind (io_warns (getSigner lib DEFAULT_PROVIDERS env svc provider None None))
          (\<lambda>signer.
        io_bind (io_ctor (lib_Contract lib contractAddress abi)) (\<lambda>contract.
        io_bind (io_lift (lib_parseEther lib value)) (\<lambda>parsedValue.
        io_bind (io_lift (find_function lib abi method)) (\<lambda>fragment.
        io_bind (io_lift (lib_encodeFunctionData lib abi method args)) (\<lambda>data.
        (let tx = spread_optional
                    [(''to'', JString contractAddress),
                     (''data'', JString data),
                     (''value'', JBigInt parsedValue)]
                    overrides
         in io_net (NetSendTransaction signer tx) (net_sendTransaction net signer tx)))))))))
       (''send transaction to contract method: '' @ method)
       (details_of [(''contractAddress'', Inr (JString contractAddress)),
                    (''abi'', js_JSON_stringify abi),
                    (''args'', js_JSON_stringify (JArray args)),
                    (''value'', Inr (JString value))])"

text \<open>
  \<^verbatim>\<open>contractSendTransactionWithOverrides(contractAddress, abi, method, args, value, provider?, overrides = {})\<close>
  merges \<^verbatim>\<open>{...overrides, value: parsedValue}\<close>, encodes the call, and calls the contract's
  method with the merged overrides.
\<close>

definition contractSendTransactionWithOverrides ::
  "ethers_lib \<Rightarrow> network \<Rightarrow> string list \<Rightarrow> process_env \<Rightarrow> service
     \<Rightarrow> string \<Rightarrow> jsval \<Rightarrow> string \<Rightarrow> jsval list \<Rightarrow> string \<Rightarrow> string option
     \<Rightarrow> js_object option \<Rightarrow> jsval io" where
  "contractSendTransactionWithOverrides lib net DEFAULT_PROVIDERS env svc contractAddress abi
       method args value provider overrides_opt =
     (let overrides = (case overrides_opt of None \<Rightarrow> [] | Some es \<Rightarrow> es) in
      io_catch
       (io_bind (io_lift (addressSchema_parse contractAddress)) (\<lambda>parsedAddress.
        io_bind (io_warns (getSigner lib DEFAULT_PROVIDERS env svc provider None None))
          (\<lambda>signer.
        io_bind (io_ctor (lib_Contract lib parsedAddress abi)) (\<lambda>contract.
        io_bind (io_lift (lib_parseEther lib value)) (\<lambda>parsedValue.
        io_bind (io_lift (find_function lib abi method)) (\<lambda>fragment.
        (let txOverrides = obj_set ''value'' (JBigInt parsedValue) (obj_spread [] overrides)
         in io_bind (io_lift (lib_encodeFunctionData lib abi method args)) (\<lambda>data.
            io_net (NetContractCall signer parsedAddress method args txOverrides)
              (net_contractCall net signer parsedAddress method args txOverrides)))))))))
       (''send transaction to contract method with overrides: '' @ method)
       (details_of [(''contractAddress'', Inr (JString contractAddress)),
                    (''abi'', js_JSON_stringify abi),
                    (''args'', serializeValue (JArray args)),
                    (''value'', Inr (JString value)),
                    (''overrides'', serializeValue (JObject overrides))]))"


section \<open>Logs and events\<close>

text \<open>\<^verbatim>\<open>formatEvent(log)\<close>\<close>

definition formatEvent :: "raw_log \<Rightarrow> jsval" where
  "formatEvent log =
     JObject
       [(''address'', JString (log_address log)),
        (''blockNumber'',
           (case log_blockNumber log of
              None \<Rightarrow> JUndefined
            | Some n \<Rightarrow> JString (bigint_toString n))),
        (''transactionHash'', JString (log_transactionHash log)),
        (''logIndex'', JNumber (log_index log)),
        (''name'',
           (case log_event log of None \<Rightarrow> JUndefined | Some (eventName, args) \<Rightarrow> JString eventName)),
        (''args'',
           (case log_event log of
              None \<Rightarrow> JUndefined
            | Some (eventName, args) \<Rightarrow> serializeEventArgs args)),
        (''data'', JString (log_data log)),
        (''topics'', JArray (map JString (log_topics log)))]"

definition or_any :: "jsval \<Rightarrow> jsval" where
  "or_any v = (if truthy v then v else JString ''any'')"

definition optional_array :: "jsval list option \<Rightarrow> jsval" where
  "optional_array topics = (case topics of None \<Rightarrow> JUndefined | Some ts \<Rightarrow> JArray ts)"

text \<open>
  \<^verbatim>\<open>queryLogs(address?, topics?, fromBlock?, toBlock?, provider?, chainId?)\<close>. An absent
  block bound is \<open>JUndefined\<close>.
\<close>

definition checksum_optional :: "ethers_lib \<Rightarrow> string option \<Rightarrow> js_error + jsval" where
  "checksum_optional lib address =
     (case address of
        None \<Rightarrow> Inr JUndefined
      | Some a \<Rightarrow>
          if a = [] then Inr JUndefined
          else (case lib_getAddress lib a of Inl e \<Rightarrow> Inl e | Inr c \<Rightarrow> Inr (JString c)))"

definition queryLogs ::
  "ethers_lib \<Rightarrow> network \<Rightarrow> string list \<Rightarrow> process_env \<Rightarrow> service
     \<Rightarrow> string option \<Rightarrow> jsval list option \<Rightarrow> jsval \<Rightarrow> jsval \<Rightarrow> string option \<Rightarrow> int option
     \<Rightarrow> jsval list io" where
  "queryLogs lib net DEFAULT_PROVIDERS env svc address topics fromBlock toBlock provider chainId =
     io_catch
       (io_bind (io_lift (checksum_optional lib address)) (\<lambda>checksummedAddress.
        io_bind (io_warns (getProvider lib DEFAULT_PROVIDERS env svc provider chainId))
          (\<lambda>selectedProvider.
        (let filter = [(''address'', checksummedAddress),
                       (''topics'', optional_array topics),
                       (''fromBlock'', fromBlock),
                       (''toBlock'', toBlock)]
         in io_bind (io_net (NetGetLogs selectedProvider filter)
                       (net_getLogs net selectedProvider filter)) (\<lambda>logs.
            io_pure (map formatEvent logs))))))
       ''query logs''
       (details_of
          [(''address'',
              Inr (JString (case address of None \<Rightarrow> ''any''
                            | Some a \<Rightarrow> if a = [] then ''any'' else a))),
           (''topics'',
              (case topics of
                 None \<Rightarrow> Inr (JString ''any'')
               | Some ts \<Rightarrow> js_JSON_stringify (JArray ts))),
           (''fromBlock'', Inr (JString (js_String (or_any fromBlock)))),
           (''toBlock'', Inr (JString (js_String (or_any toBlock))))])"

text \<open>
  The callback of \<^verbatim>\<open>logs.map\<close> in \<^verbatim>\<open>contractEvents\<close>: a record that the interface
  decodes gets the decoded name and the serialized arguments; one whose decoding raises
  is returned as it came.
\<close>

definition decode_event :: "ethers_lib \<Rightarrow> jsval \<Rightarrow> jsval \<Rightarrow> jsval" where
  "decode_event lib abi log =
     (case lib_parseLog lib abi (js_get log ''topics'') (js_get log ''data'') of
        Inl e \<Rightarrow> log
      | Inr parsedLog \<Rightarrow>
          JObject
            (obj_set ''args''
               (serializeEventArgs
                  (case parsedLog of None \<Rightarrow> JUndefined | Some (name, args) \<Rightarrow> args))
               (obj_set ''name''
                  (case parsedLog of None \<Rightarrow> JUndefined | Some (name, args) \<Rightarrow> JString name)
                  (obj_spread [] (own_entries log)))))"

definition find_event :: "ethers_lib \<Rightarrow> jsval \<Rightarrow> string \<Rightarrow> js_error + string" where
  "find_event lib abi eventName =
     (case lib_getEvent lib abi eventName of
        Inl e \<Rightarrow> Inl e
      | Inr None \<Rightarrow> Inl (new_Error (''Event '' @ eventName @ '' not found in contract ABI''))
      | Inr (Some topicHash) \<Rightarrow> Inr topicHash)"

definition event_topics :: "string \<Rightarrow> jsval list option \<Rightarrow> jsval list" where
  "event_topics topicHash topics =
     (case topics of
        None \<Rightarrow> [JString topicHash]
      | Some ts \<Rightarrow> if length ts > 0 then [JString topicHash] @ ts else [JString topicHash])"

text \<open>
  \<^verbatim>\<open>contractEvents(contractAddress, abi, eventName?, topics?, fromBlock?, toBlock?, provider?, chainId?)\<close>.
  Without an event name the promise of \<open>queryLogs\<close> is returned without being awaited, so
  its rejection does not pass through this method's \<^verbatim>\<open>catch\<close>.
\<close>

definition contractEvents ::
  "ethers_lib \<Rightarrow> network \<Rightarrow> string list \<Rightarrow> process_env \<Rightarrow> service
     \<Rightarrow> string \<Rightarrow> jsval \<Rightarrow> string option \<Rightarrow> jsval list option \<Rightarrow> jsval \<Rightarrow> jsval
     \<Rightarrow> string option \<Rightarrow> int option \<Rightarrow> jsval list io" where
  "contractEvents lib net DEFAULT_PROVIDERS env svc contractAddress abi eventName topics
       fromBlock toBlock provider chainId =
     (let context = ''query contract events'';
          details =
            details_of
              [(''contractAddress'', Inr (JString contractAddress)),
               (''abi'', abi_detail abi),
               (''eventName'',
                  Inr (JString (case eventName of None \<Rightarrow> ''any''
                                | Some n \<Rightarrow> if n = [] then ''any'' else n))),
               (''topics'',
                  (case topics of
                     None \<Rightarrow> Inr (JString ''any'')
                   | Some ts \<Rightarrow> serializeValue (JArray ts))),
               (''fromBlock'', Inr (JString (js_String (or_any fromBlock)))),
               (''toBlock'', Inr (JString (js_String (or_any toBlock))))];
          opened =
            io_bind (io_lift (lib_getAddress lib contractAddress)) (\<lambda>checksummedAddress.
            io_bind (io_warns (getProvider lib DEFAULT_PROVIDERS env svc provider chainId))
              (\<lambda>selectedProvider.
            io_bind (io_ctor (lib_Contract lib checksummedAddress abi)) (\<lambda>contract.
            io_pure checksummedAddress)));
          name = (case eventName of None \<Rightarrow> [] | Some n \<Rightarrow> n)
      in case opened of
           (Inl e, effs) \<Rightarrow> io_catch (Inl e, effs) context details
         | (Inr checksummedAddress, effs) \<Rightarrow>
             if name = [] then
               io_bind (Inr (), effs) (\<lambda>u.
                 queryLogs lib net DEFAULT_PROVIDERS env svc (Some checksummedAddress) topics
                   fromBlock toBlock provider chainId)
             else
               io_catch
                 (io_bind (Inr (), effs) (\<lambda>u.
                  io_bind (io_lift (find_event lib abi name)) (\<lambda>topicHash.
                  io_bind (queryLogs lib net DEFAULT_PROVIDERS env svc (Some checksummedAddress)
                             (Some (event_topics topicHash topics)) fromBlock toBlock provider
                             chainId) (\<lambda>logs.
                  io_pure (map (decode_event lib abi) logs)))))
                 context details)"

text \<open>A stub of the network for the concrete examples.\<close>

definition stub_log :: raw_log where
  "stub_log = \<lparr>
     log_address = ''0x00000000000000000000000000000000000000aa'',
     log_blockNumber = Some 12,
     log_transactionHash = ''0xfeed'',
     log_index = 0,
     log_data = ''0x07'',
     log_topics = [''0xddf252ad''],
     log_event = None \<rparr>"

definition stub_net :: network where
  "stub_net = \<lparr>
     net_getBalance = (\<lambda>p a. Inr (10 ^ 18)),
     net_staticCall = (\<lambda>p a m args. Inr (JArray [JBigInt 42])),
     net_getLogs = (\<lambda>p f. Inr [stub_log, stub_log\<lparr>log_data := ''0xbad''\<rparr>]),
     net_sendTransaction = (\<lambda>s tx. Inr (JObject [(''hash'', JString ''0xfeed'')])),
     net_contractCall = (\<lambda>s a m args ov. Inr (JObject [(''hash'', JString ''0xfeed'')])),
     erc20_getBalance = (\<lambda>t ownerAddress p c. (Inr ''1.0'', [TokenModuleCall ''erc20.getBalance'' [t, ownerAddress]])),
     erc20_transfer = (\<lambda>t r a p c opts. (Inr (JObject [(''hash'', JString ''0xfeed'')]),
                                         [TokenModuleCall ''erc20.transfer'' [t, r, a]]))
   \<rparr>"


text \<open>
  The error an operation rejects with when \<open>addressSchema_parse\<close> fails, and the type of an
  interface description: a string or an array of strings.
\<close>

definition validation_error :: js_error where
  "validation_error = new_Error (''Invalid input format: Invalid'' @ address_hint)"

definition abi_well_typed :: "jsval \<Rightarrow> bool" where
  "abi_well_typed abi =
     (case abi of JString s \<Rightarrow> True | JArray xs \<Rightarrow> list_all is_text xs | _ \<Rightarrow> False)"

definition stub_address :: string where
  "stub_address = ''0x00000000000000000000000000000000000000aa''"


text \<open>
  \<^verbatim>\<open>serializeValue\<close> of the earlier service in \<^verbatim>\<open>src/services/ethersService.ts\<close>: it has no
  branch for arrays and none for \<^verbatim>\<open>toJSON\<close>, and prints every object with
  \<^verbatim>\<open>JSON.stringify\<close> and the bigint replacer.
\<close>

definition serializeValue_services :: "jsval \<Rightarrow> js_error + jsval" where
  "serializeValue_services v =
     (case v of
        JUndefined \<Rightarrow> Inr (JString ''undefined'')
      | JNull \<Rightarrow> Inr (JString ''null'')
      | JBigInt i \<Rightarrow> Inr (JString (bigint_toString i))
      | JBoolean b \<Rightarrow> Inr (JString (js_String v))
      | JNumber n \<Rightarrow> Inr (JString (js_String v))
      | JString s \<Rightarrow> Inr (JString (js_String v))
      | _ \<Rightarrow>
          (case JSON_stringify BigintReplacer v of
             JsonTypeError \<Rightarrow> Inl (new_TypeError ''Do not know how to serialize a BigInt'')
           | JsonUndefined \<Rightarrow> Inr JUndefined
           | JsonText s \<Rightarrow> Inr (JString s)))"

section \<open>Properties of the decimal text\<close>

lemma digit_val_digit_char: "d < 10 \<Longrightarrow> digit_val (digit_char d) = d"
proof -
  assume "d < 10"
  then have "d \<in> {0, 1, 2, 3, 4, 5, 6, 7, 8, 9}" by auto
  then show ?thesis by (auto simp: digit_val_def digit_char_def)
qed

lemma read_nat_snoc: "read_nat (s @ [c]) = 10 * read_nat s + digit_val c"
  by (simp add: read_nat_def)

lemma read_nat_show_nat: "read_nat (show_nat n) = n"
proof (induction n rule: show_nat.induct)
  case (1 n)
  show ?case
  proof (cases "n < 10")
    case True
    then show ?thesis
      by (subst show_nat.simps) (simp add: read_nat_def digit_val_digit_char)
  next
    case False
    with 1 have "read_nat (show_nat (n div 10)) = n div 10" by simp
    with False show ?thesis
      by (subst show_nat.simps) (simp add: read_nat_snoc digit_val_digit_char)
  qed
qed

lemma digit_char_not_minus: "d < 10 \<Longrightarrow> digit_char d \<noteq> CHR ''-''"
proof -
  assume "d < 10"
  then have "d \<in> {0, 1, 2, 3, 4, 5, 6, 7, 8, 9}" by auto
  then show ?thesis by (auto simp: digit_char_def)
qed

lemma show_nat_head: "\<exists>c cs. show_nat n = c # cs \<and> c \<noteq> CHR ''-''"
proof (induction n rule: show_nat.induct)
  case (1 n)
  show ?case
  proof (cases "n < 10")
    case True
    then show ?thesis
      by (subst show_nat.simps) (simp add: digit_char_not_minus)
  next
    case False
    with 1 obtain c cs where "show_nat (n div 10) = c # cs" "c \<noteq> CHR ''-''" by auto
    with False show ?thesis
      by (subst show_nat.simps) simp
  qed
qed

lemma read_int_bigint_toString: "read_int (bigint_toString i) = i"
proof (cases "i < 0")
  case True
  then show ?thesis by (simp add: read_int_def bigint_toString_def read_nat_show_nat)
next
  case False
  obtain c cs where h: "show_nat (nat i) = c # cs" "c \<noteq> CHR ''-''"
    using show_nat_head by blast
  have "read_nat (c # cs) = nat i" using read_nat_show_nat [of "nat i"] h by simp
  with False h show ?thesis by (simp add: read_int_def bigint_toString_def)
qed

lemmas decimal_eval = bigint_toString_def show_nat.simps digit_char_def


section \<open>With the replacer, the JSON printer never meets a bigint\<close>

lemma json_never_type_error:
  "rep = BigintReplacer \<Longrightarrow> json_property rep v \<noteq> JsonTypeError"
  "rep = BigintReplacer \<Longrightarrow> json_array (json_elems rep xs) \<noteq> None"
  "rep = BigintReplacer \<Longrightarrow> json_members (json_entries rep es) \<noteq> None"
proof (induction rep v and rep xs and rep es rule: json_property_json_elems_json_entries.induct)
  case (1 rep v)
  then show ?case
    by (subst json_property.simps)
       (auto simp: apply_replacer_def bigint_replacer_def json_array_text_def json_object_text_def
             split: jsval.splits option.splits)
next
  case (3 rep x xs)
  then show ?case by (cases "json_property rep x") auto
next
  case (5 rep k x es)
  then show ?case by (cases "json_property rep x") auto
qed simp_all

lemma JSON_stringify_object: "\<exists>s. JSON_stringify BigintReplacer (JObject es) = JsonText s"
proof -
  obtain ss where "json_members (json_entries BigintReplacer es) = Some ss"
    using json_never_type_error(3) [of BigintReplacer es] by auto
  then show ?thesis
    by (simp add: JSON_stringify_def json_property.simps apply_toJSON_def apply_replacer_def
          bigint_replacer_def json_object_text_def)
qed


section \<open>serializeValue is total and exact\<close>

lemma serializeValue_returns:
  "\<exists>r. serializeValue v = Inr r"
  "\<exists>rs. serializeValues xs = Inr rs \<and> list_all2 (\<lambda>x r. serializeValue x = Inr r) xs rs"
proof (induction v and xs rule: serializeValue_serializeValues.induct)
  case (6 es)
  obtain s where "JSON_stringify BigintReplacer (JObject es) = JsonText s"
    using JSON_stringify_object by blast
  then show ?case by simp
qed auto

lemma serializeValue_is_text:
  assumes "toJSON_text v"
  shows "\<exists>s. serializeValue v = Inr (JString s)"
proof (cases v)
  case (JArray xs)
  obtain rs where "serializeValues xs = Inr rs" using serializeValue_returns(2) by blast
  with JArray show ?thesis by simp
next
  case (JObject es)
  obtain s where "JSON_stringify BigintReplacer (JObject es) = JsonText s"
    using JSON_stringify_object by blast
  with JObject show ?thesis by simp
next
  case (JJsonable es r)
  with assms show ?thesis by (cases r) (simp_all add: toJSON_text_def is_text_def)
qed simp_all

text \<open>
  \<open>serializeValue\<close> never raises, on any value. It maps \<^verbatim>\<open>undefined\<close> to the text
  \<^verbatim>\<open>undefined\<close>, \<^verbatim>\<open>null\<close> to \<^verbatim>\<open>null\<close>, a bigint to its exact decimal text (reading the
  digits back gives the same integer), and an array to its elements' serializations,
  joined by a comma and a space between square brackets; a nested structure holding
  \<open>10 ^ 30\<close> prints all 31 digits. The result is a string for every value but an object
  that exposes \<^verbatim>\<open>toJSON\<close>, where it is whatever that method returns.
\<close>

lemma serializeValue_never_raises:
  "(\<exists>r. serializeValue v = Inr r)
   \<and> (toJSON_text v \<longrightarrow> (\<exists>s. serializeValue v = Inr (JString s)))
   \<and> serializeValue (JJsonable es r) = Inr r
   \<and> serializeValue JUndefined = Inr (JString ''undefined'')
   \<and> serializeValue JNull = Inr (JString ''null'')
   \<and> serializeValue (JBigInt i) = Inr (JString (bigint_toString i))
   \<and> read_int (bigint_toString i) = i
   \<and> (\<exists>rs. list_all2 (\<lambda>x r. serializeValue x = Inr r) xs rs
         \<and> serializeValue (JArray xs) = Inr (JString (''['' @ array_join '', '' rs @ '']'')))
   \<and> serializeValue (JArray [JObject [(''amount'', JBigInt (10 ^ 30))], JArray [JBigInt (10 ^ 30)]])
       = Inr (JString (''[{'' @ json_quote ''amount'' @ '':''
                        @ json_quote ''1000000000000000000000000000000''
                        @ ''}, [1000000000000000000000000000000]]''))"
proof -
  have total: "\<exists>r. serializeValue v = Inr r" by (rule serializeValue_returns(1))
  have textual: "toJSON_text v \<longrightarrow> (\<exists>s. serializeValue v = Inr (JString s))"
    using serializeValue_is_text by blast
  have arr: "\<exists>rs. list_all2 (\<lambda>x r. serializeValue x = Inr r) xs rs
         \<and> serializeValue (JArray xs) = Inr (JString (''['' @ array_join '', '' rs @ '']''))"
  proof -
    obtain rs where "serializeValues xs = Inr rs" "list_all2 (\<lambda>x r. serializeValue x = Inr r) xs rs"
      using serializeValue_returns(2) by blast
    then show ?thesis by auto
  qed
  have ex: "serializeValue (JArray [JObject [(''amount'', JBigInt (10 ^ 30))], JArray [JBigInt (10 ^ 30)]])
       = Inr (JString (''[{'' @ json_quote ''amount'' @ '':''
                        @ json_quote ''1000000000000000000000000000000''
                        @ ''}, [1000000000000000000000000000000]]''))"
    by (simp add: JSON_stringify_def json_property.simps apply_toJSON_def apply_replacer_def bigint_replacer_def
          json_object_text_def array_join_def decimal_eval)
  show ?thesis
    using total textual arr ex by (simp add: read_int_bigint_toString)
qed

text \<open>
  Claim C7, at the input where the code departs from it: the object
  \<^verbatim>\<open>{ toJSON() { return {} } }\<close>. \<open>serializeValue\<close> is declared to return a string and
  every other branch of it converts to text, but the \<^verbatim>\<open>toJSON\<close> branch returns what the
  method returns as it is: here the empty object, which is not a string. The earlier
  \<open>serializeValue\<close> of \<^verbatim>\<open>src/services/ethersService.ts\<close> returns the text \<^verbatim>\<open>{}\<close> at the
  same input.
\<close>

theorem serializeValue_toJSON_returns_object:
  "serializeValue (JJsonable es r) = Inr r
   \<and> serializeValue (JJsonable [] (JObject [])) = Inr (JObject [])
   \<and> \<not> is_text (JObject [])
   \<and> serializeValue_services (JJsonable [] (JObject [])) = Inr (JString ''{}'')"
  by (simp add: is_text_def serializeValue_services_def JSON_stringify_def json_property.simps
        apply_toJSON_def apply_replacer_def bigint_replacer_def json_object_text_def array_join_def)


section \<open>Error normalization\<close>

lemma detail_items_returns:
  "\<exists>items. detail_items es = Inr items
     \<and> list_all2 (\<lambda>(k, v) item. \<exists>r. serializeValue v = Inr r \<and> item = k @ ''='' @ js_String r)
          es items"
proof (induction es)
  case Nil
  show ?case by simp
next
  case (Cons kv es)
  obtain k v where kv: "kv = (k, v)" by (cases kv)
  obtain r where r: "serializeValue v = Inr r" using serializeValue_returns(1) by blast
  from Cons obtain items where
    "detail_items es = Inr items"
    "list_all2 (\<lambda>(k, v) item. \<exists>r. serializeValue v = Inr r \<and> item = k @ ''='' @ js_String r) es items"
    by blast
  with kv r show ?case by simp
qed

text \<open>
  Claim C6. \<open>handleProviderError\<close> classifies the error it is given in a fixed order and
  throws exactly one error, whose message is: for a schema violation,
  \<^verbatim>\<open>Invalid input format: \<close> followed by the first violation's message (the words
  \<^verbatim>\<open>Invalid input format\<close> again when there is none) and the address hint; otherwise, for
  an error that carries a \<^verbatim>\<open>code\<close>, \<^verbatim>\<open>Failed to <context>: Provider error: <message>\<close>;
  otherwise \<^verbatim>\<open>Failed to <context>: <message>\<close> (the error's name when its message is
  empty), followed, when details are given, by \<^verbatim>\<open> Details: \<close> and the
  \<^verbatim>\<open>key=serialized value\<close> items joined by a comma and a space. Serializing the details
  never raises, so no other error escapes.
\<close>

theorem handleProviderError_classification:
  "handleProviderError (ZodError (m # ms)) ctx details
     = new_Error (''Invalid input format: '' @ (if m = [] then ''Invalid input format'' else m)
                  @ address_hint)
   \<and> handleProviderError (ZodError []) ctx details
     = new_Error (''Invalid input format: Invalid input format'' @ address_hint)
   \<and> handleProviderError (Error n msg (Some c)) ctx details
     = new_Error (''Failed to '' @ ctx @ '': Provider error: '' @ msg)
   \<and> handleProviderError (Error n msg None) ctx None
     = new_Error (''Failed to '' @ ctx @ '': '' @ (if msg = [] then n else msg))
   \<and> (\<exists>items.
         list_all2 (\<lambda>(k, v) item. \<exists>r. serializeValue v = Inr r \<and> item = k @ ''='' @ js_String r)
           es items
         \<and> handleProviderError (Error n msg None) ctx (Some es)
           = new_Error (''Failed to '' @ ctx @ '': '' @ (if msg = [] then n else msg)
                        @ '' Details: '' @ join_strs '', '' items))"
proof -
  obtain items where
    "detail_items es = Inr items"
    "list_all2 (\<lambda>(k, v) item. \<exists>r. serializeValue v = Inr r \<and> item = k @ ''='' @ js_String r) es items"
    using detail_items_returns by blast
  then have "\<exists>items.
         list_all2 (\<lambda>(k, v) item. \<exists>r. serializeValue v = Inr r \<and> item = k @ ''='' @ js_String r)
           es items
         \<and> handleProviderError (Error n msg None) ctx (Some es)
           = new_Error (''Failed to '' @ ctx @ '': '' @ (if msg = [] then n else msg)
                        @ '' Details: '' @ join_strs '', '' items)"
    by (intro exI [of _ items]) simp
  then show ?thesis by simp
qed

text \<open>The three classes at concrete errors of \<^verbatim>\<open>getBalance\<close>.\<close>

theorem handleProviderError_classification_witness:
  "handleProviderError (ZodError [''Invalid'']) ''fetch balance'' (Some [(''address'', JString ''0x12'')])
     = new_Error (''Invalid input format: Invalid'' @ address_hint)
   \<and> handleProviderError (Error ''Error'' ''timeout'' (Some ''NETWORK_ERROR'')) ''fetch balance''
        (Some [(''address'', JString ''0x12'')])
     = new_Error ''Failed to fetch balance: Provider error: timeout''
   \<and> handleProviderError (Error ''Error'' ''timeout'' None) ''fetch balance''
        (Some [(''address'', JString ''0x12''), (''n'', JBigInt 7)])
     = new_Error ''Failed to fetch balance: timeout Details: address=0x12, n=7''"
  using handleProviderError_classification
    [of "''Invalid''" "[]" "''fetch balance''" "Some [(''address'', JString ''0x12'')]"
        "''Error''" "''timeout''" "''NETWORK_ERROR''"
        "[(''address'', JString ''0x12''), (''n'', JBigInt 7)]"]
  by (simp add: decimal_eval)



section \<open>The matcher accepts the language of the pattern\<close>

lemma nullable_lang: "nullable r \<longleftrightarrow> [] \<in> lang r"
  by (induction r) (auto simp: conc_def intro: star.star_nil)

lemma star_cons:
  assumes "x \<in> star A" and "x = c # w"
  shows "\<exists>u v. w = u @ v \<and> c # u \<in> A \<and> v \<in> star A"
  using assms
proof (induction rule: star.induct)
  case star_nil
  then show ?case by simp
next
  case (star_app u v)
  show ?case
  proof (cases u)
    case Nil
    with star_app show ?thesis by simp
  next
    case (Cons a u')
    with star_app have "a = c" "w = u' @ v" by simp_all
    with Cons star_app(1,2) show ?thesis by blast
  qed
qed

lemma deriv_lang: "lang (deriv c r) = {w. c # w \<in> lang r}"
proof (induction r)
  case (RSeq r s)
  have "{w. c # w \<in> conc (lang r) (lang s)}
      = conc {w. c # w \<in> lang r} (lang s) \<union> (if [] \<in> lang r then {w. c # w \<in> lang s} else {})"
    by (auto simp: conc_def Cons_eq_append_conv)
  with RSeq show ?case by (simp add: nullable_lang)
next
  case (RStar r)
  have "{w. c # w \<in> star (lang r)} = conc {w. c # w \<in> lang r} (star (lang r))"
  proof (intro set_eqI iffI)
    fix w assume "w \<in> {w. c # w \<in> star (lang r)}"
    then show "w \<in> conc {w. c # w \<in> lang r} (star (lang r))"
      using star_cons [of "c # w" "lang r" c w] by (auto simp: conc_def)
  next
    fix w assume "w \<in> conc {w. c # w \<in> lang r} (star (lang r))"
    then obtain u v where "w = u @ v" "c # u \<in> lang r" "v \<in> star (lang r)"
      by (auto simp: conc_def)
    then show "w \<in> {w. c # w \<in> star (lang r)}"
      using star.star_app [of "c # u" "lang r" v] by simp
  qed
  with RStar show ?case by simp
qed auto

lemma regex_test_lang: "regex_test r s \<longleftrightarrow> s \<in> lang r"
  by (induction s arbitrary: r) (simp_all add: nullable_lang deriv_lang)

lemma lang_lit: "lang (rx_lit s) = {s}"
  by (induction s) (auto simp: conc_def)

lemma conc_atom: "conc {[c] | c. p c} B = {c # v | c v. p c \<and> v \<in> B}"
proof (intro set_eqI iffI)
  fix s assume "s \<in> conc {[c] | c. p c} B"
  then show "s \<in> {c # v | c v. p c \<and> v \<in> B}" by (auto simp: conc_def)
next
  fix s assume "s \<in> {c # v | c v. p c \<and> v \<in> B}"
  then obtain c v where "s = [c] @ v" "p c" "v \<in> B" by auto
  then show "s \<in> conc {[c] | c. p c} B" unfolding conc_def by blast
qed

lemma lang_times_atom: "lang (rx_times n (RAtom p)) = {s. length s = n \<and> list_all p s}"
proof (induction n)
  case 0
  show ?case by auto
next
  case (Suc n)
  have "lang (rx_times (Suc n) (RAtom p)) = {c # v | c v. p c \<and> v \<in> {s. length s = n \<and> list_all p s}}"
    by (simp add: Suc conc_atom)
  also have "\<dots> = {s. length s = Suc n \<and> list_all p s}"
  proof (intro set_eqI iffI)
    fix s assume "s \<in> {c # v | c v. p c \<and> v \<in> {s. length s = n \<and> list_all p s}}"
    then show "s \<in> {s. length s = Suc n \<and> list_all p s}" by auto
  next
    fix s assume "s \<in> {s. length s = Suc n \<and> list_all p s}"
    then show "s \<in> {c # v | c v. p c \<and> v \<in> {s. length s = n \<and> list_all p s}}"
      by (cases s) auto
  qed
  finally show ?case .
qed

lemma address_regex_lang:
  "lang address_regex = {''0x'' @ h | h. length h = 40 \<and> list_all hex_char h}"
proof -
  have "lang address_regex = conc {''0x''} {s. length s = 40 \<and> list_all hex_char s}"
    unfolding address_regex_def by (simp only: lang.simps lang_lit lang_times_atom)
  then show ?thesis by (auto simp: conc_def)
qed

lemma address_regex_iff:
  "regex_test address_regex s \<longleftrightarrow> (\<exists>h. s = ''0x'' @ h \<and> length h = 40 \<and> list_all hex_char h)"
  by (auto simp: regex_test_lang address_regex_lang)


section \<open>Address validation\<close>

lemma addressSchema_parse_iff:
  "addressSchema_parse s = (if well_formed_address s then Inr s else Inl (ZodError [zod_regex_message]))"
  by (simp add: addressSchema_parse_def well_formed_address_def address_regex_iff)


section \<open>Provider resolution\<close>

lemma check_chainId_ok_or_error:
  "snd (check_chainId lib np h) \<noteq> [] \<Longrightarrow> \<exists>u. fst (check_chainId lib np h) = Inr u"
  by (auto simp: check_chainId_def split: option.splits sum.splits if_splits)

lemma check_chainId_cases:
  obtains u ws where "check_chainId lib np h = (Inr u, ws)"
  | e where "check_chainId lib np h = (Inl e, [])"
  using check_chainId_ok_or_error [of lib np h]
  by (cases "check_chainId lib np h"; cases "fst (check_chainId lib np h)") auto

lemma getProvider_warning_success:
  assumes "snd (getProvider lib DP env svc p h) \<noteq> []"
  shows "\<exists>x. fst (getProvider lib DP env svc p h) = Inr x"
proof (cases p)
  case None
  with assms show ?thesis by (simp add: getProvider_def Let_def)
next
  case (Some s)
  show ?thesis
  proof (cases "s = []")
    case True
    with Some assms show ?thesis by (simp add: getProvider_def Let_def)
  next
    case nonempty: False
    show ?thesis
    proof (cases "s \<in> set DP")
      case True
      show ?thesis
      proof (cases "lib_AlchemyProvider lib (getEthersNetworkName s) (ALCHEMY_API_KEY env)")
        case (Some e)
        with \<open>p = Some s\<close> nonempty True assms show ?thesis by (simp add: getProvider_def Let_def)
      next
        case None
        with \<open>p = Some s\<close> nonempty True assms
        show ?thesis
          by (cases rule: check_chainId_cases
                [of lib "Alchemy (getEthersNetworkName s) (ALCHEMY_API_KEY env)" h])
             (simp_all add: getProvider_def Let_def)
      qed
    next
      case notdefault: False
      show ?thesis
      proof (cases "take 4 s = ''http''")
        case False
        with Some nonempty notdefault assms show ?thesis by (simp add: getProvider_def Let_def)
      next
        case True
        show ?thesis
        proof (cases "validateRpcUrl s")
          case (Inl e)
          with Some nonempty notdefault True assms show ?thesis by (simp add: getProvider_def Let_def)
        next
          case (Inr u)
          show ?thesis
          proof (cases "lib_JsonRpcProvider lib s")
            case (Some e)
            with \<open>p = Some s\<close> nonempty notdefault True Inr assms show ?thesis
              by (simp add: getProvider_def Let_def)
          next
            case None
            with \<open>p = Some s\<close> nonempty notdefault True Inr assms show ?thesis
              by (cases rule: check_chainId_cases [of lib "JsonRpc s" h])
                 (simp_all add: getProvider_def Let_def)
          qed
        qed
      qed
    qed
  qed
qed

text \<open>
  Claim C5, as amended. For a supported network name whose connection the library
  constructs: with a nonzero chain-id hint, when the connection reports a chain id (a
  truthy value) that is not strictly equal to the hint, resolution succeeds, returns the
  connection constructed from the network name alone, the same one as without a hint, and
  records exactly one mismatch warning. A hint of 0 is treated as no hint and records
  nothing. Whenever provider resolution records a warning, it has succeeded.
\<close>

theorem getProvider_chain_hint:
  assumes "p \<in> set DP" and "p \<noteq> []"
    and "lib_AlchemyProvider lib (getEthersNetworkName p) (ALCHEMY_API_KEY env) = None"
  shows "(h \<noteq> 0
          \<and> lib_network_chainId lib (Alchemy (getEthersNetworkName p) (ALCHEMY_API_KEY env)) = Inr c
          \<and> truthy c \<and> \<not> strict_eq c (JNumber h)
          \<longrightarrow> getProvider lib DP env svc (Some p) (Some h)
              = (Inr (Alchemy (getEthersNetworkName p) (ALCHEMY_API_KEY env)), [chain_warning h c]))
       \<and> getProvider lib DP env svc (Some p) None
           = (Inr (Alchemy (getEthersNetworkName p) (ALCHEMY_API_KEY env)), [])
       \<and> getProvider lib DP env svc (Some p) (Some 0) = getProvider lib DP env svc (Some p) None
       \<and> (snd (getProvider lib DP env svc q k) \<noteq> []
            \<longrightarrow> (\<exists>x. fst (getProvider lib DP env svc q k) = Inr x))"
  using assms getProvider_warning_success [of lib DP env svc q k]
  by (auto simp: getProvider_def check_chainId_def Let_def)

text \<open>The theorem for \<^verbatim>\<open>mainnet\<close> with the hint 5.\<close>

theorem getProvider_chain_hint_witness:
  "''mainnet'' \<in> set [''mainnet'', ''sepolia'']
   \<and> lib_AlchemyProvider stub_lib (getEthersNetworkName ''mainnet'') (ALCHEMY_API_KEY stub_env) = None
   \<and> lib_network_chainId stub_lib (Alchemy ''mainnet'' None) = Inr (JBigInt 1)
   \<and> truthy (JBigInt 1) \<and> \<not> strict_eq (JBigInt 1) (JNumber 5)
   \<and> getProvider stub_lib [''mainnet'', ''sepolia''] stub_env stub_service (Some ''mainnet'') (Some 5)
       = (Inr (Alchemy ''mainnet'' None),
          [''Chain ID mismatch: specified 5 but provider network is 1, using provider's chain ID''])"
  using getProvider_chain_hint [of "''mainnet''" "[''mainnet'', ''sepolia'']" stub_lib stub_env 5
          "JBigInt 1" stub_service "Some ''mainnet''" "Some 5"]
  by (simp add: stub_lib_def stub_env_def getEthersNetworkName_def networkToEthersMap_def
        toLowerCase_def lower_char_def chain_warning_def decimal_eval)

text \<open>
  Claim C5 as stated fails for the hint 0: it differs from the chain id 1 the connection
  reports, and no warning is recorded.
\<close>

theorem getProvider_zero_hint_counterexample:
  "lib_network_chainId stub_lib (Alchemy ''mainnet'' None) = Inr (JBigInt 1)
   \<and> \<not> strict_eq (JBigInt 1) (JNumber 0)
   \<and> getProvider stub_lib [''mainnet'', ''sepolia''] stub_env stub_service (Some ''mainnet'') (Some 0)
       = (Inr (Alchemy ''mainnet'' None), [])"
  by (simp add: getProvider_def check_chainId_def stub_lib_def stub_env_def getEthersNetworkName_def
        networkToEthersMap_def toLowerCase_def lower_char_def)


text \<open>
  The case analysis of \<open>getProvider\<close>: no identifier, a supported network name, a URL, and
  anything else.
\<close>

lemma getProvider_case_analysis:
  "getProvider lib DP env svc None h = (Inr (svc_provider svc), [])"
  "p \<noteq> [] \<Longrightarrow> p \<in> set DP \<Longrightarrow>
     lib_AlchemyProvider lib (getEthersNetworkName p) (ALCHEMY_API_KEY env) = Some e \<Longrightarrow>
     getProvider lib DP env svc (Some p) h
       = (Inl (handleProviderError e (''create Alchemy provider for network '' @ p) None), [])"
  "p \<noteq> [] \<Longrightarrow> p \<in> set DP \<Longrightarrow>
     lib_AlchemyProvider lib (getEthersNetworkName p) (ALCHEMY_API_KEY env) = None \<Longrightarrow>
     getProvider lib DP env svc (Some p) None
       = (Inr (Alchemy (getEthersNetworkName p) (ALCHEMY_API_KEY env)), [])"
  "p \<noteq> [] \<Longrightarrow> p \<notin> set DP \<Longrightarrow> take 4 p = ''http'' \<Longrightarrow> \<not> regex_test rpc_url_regex p \<Longrightarrow>
     getProvider lib DP env svc (Some p) h
       = (Inl (new_Error (''Failed to create provider with RPC URL '' @ p
             @ '': Invalid RPC URL format: '' @ p
             @ ''. URL must start with http:// or https:// and include a valid domain.'')), [])"
  "p \<noteq> [] \<Longrightarrow> p \<notin> set DP \<Longrightarrow> take 4 p = ''http'' \<Longrightarrow> regex_test rpc_url_regex p \<Longrightarrow>
     lib_JsonRpcProvider lib p = None \<Longrightarrow>
     getProvider lib DP env svc (Some p) None = (Inr (JsonRpc p), [])"
  "p \<noteq> [] \<Longrightarrow> p \<notin> set DP \<Longrightarrow> take 4 p \<noteq> ''http'' \<Longrightarrow>
     getProvider lib DP env svc (Some p) h
       = (Inl (new_Error (invalid_provider_message DP p)), [])"
  by (simp_all add: getProvider_def check_chainId_def validateRpcUrl_def new_Error_def)

text \<open>
  The check for a missing API key exists in \<open>createAlchemyProvider\<close>, and in the earlier
  service's \<open>getProvider_services\<close>.
\<close>

lemma createAlchemyProvider_missing_key:
  "\<not> env_truthy (ALCHEMY_API_KEY env) \<Longrightarrow>
   createAlchemyProvider lib env network
     = Inl (new_Error (''Failed to create Alchemy provider for network '' @ network
              @ '': Missing ALCHEMY_API_KEY in environment variables.''))"
  by (auto simp: createAlchemyProvider_def getAlchemyApiKey_def new_Error_def env_truthy_def
        split: option.splits)

lemma getProvider_services_missing_key:
  "\<not> env_truthy (INFURA_API_KEY env) \<Longrightarrow> p \<in> set DEFAULT_PROVIDERS_services \<Longrightarrow>
   getProvider_services lib env dp (Some p)
     = Inl (new_Error (''Failed to create Infura provider for network '' @ p
              @ '': Failed to create Infura provider for network '' @ p
              @ '': Missing INFURA_API_KEY in environment variables.''))"
proof -
  assume a: "\<not> env_truthy (INFURA_API_KEY env)" "p \<in> set DEFAULT_PROVIDERS_services"
  then have "p \<noteq> []" by (auto simp: DEFAULT_PROVIDERS_services_def)
  with a show ?thesis
    by (auto simp: getProvider_services_def createInfuraProvider_def getInfuraApiKey_def
          new_Error_def env_truthy_def split: option.splits)
qed

text \<open>
  Claim C3, at the input where the code departs from it: with \<^verbatim>\<open>ALCHEMY_API_KEY\<close> unset,
  \<open>getProvider\<close> for the supported network \<^verbatim>\<open>mainnet\<close> hands the absent key to the
  library's constructor and returns the connection, where the claim has it fail with a
  missing-credential error; \<open>createAlchemyProvider\<close>, which \<open>getProvider\<close> does not call,
  raises that error at the same input.
\<close>

theorem getProvider_missing_key_unchecked:
  "ALCHEMY_API_KEY stub_env = None
   \<and> getProvider stub_lib [''mainnet'', ''sepolia''] stub_env stub_service (Some ''mainnet'') None
       = (Inr (Alchemy ''mainnet'' None), [])
   \<and> createAlchemyProvider stub_lib stub_env ''mainnet''
       = Inl (new_Error ''Failed to create Alchemy provider for network mainnet: Missing ALCHEMY_API_KEY in environment variables.'')"
  by (simp add: getProvider_def check_chainId_def stub_lib_def stub_env_def getEthersNetworkName_def
        networkToEthersMap_def toLowerCase_def lower_char_def createAlchemyProvider_def
        getAlchemyApiKey_def env_truthy_def new_Error_def)


section \<open>Signer resolution\<close>

text \<open>
  Claim C4, as amended. \<open>getSigner\<close> returns the explicit override when there is one,
  otherwise the instance's signer when there is one, both unchanged and without resolving
  a provider; otherwise, with \<^verbatim>\<open>PRIVATE_KEY\<close> unset or empty, it fails with an error
  that names \<^verbatim>\<open>PRIVATE_KEY\<close>; otherwise it resolves the provider for the same identifier
  and chain-id hint and returns a new wallet for the key, bound to that connection.
\<close>

theorem getSigner_precedence:
  "getSigner lib DP env svc p h (Some s) = (Inr s, [])
   \<and> (svc_signer svc = Some s
        \<longrightarrow> getSigner lib DP env svc p h None = (Inr s, []))
   \<and> (svc_signer svc = None \<and> \<not> env_truthy (PRIVATE_KEY env)
        \<longrightarrow> getSigner lib DP env svc p h None
            = (Inl (new_Error ''Missing PRIVATE_KEY in environment variables. Either provide a signer in the constructor or set PRIVATE_KEY in environment variables.''), []))
   \<and> (svc_signer svc = None \<and> PRIVATE_KEY env = Some k \<and> k \<noteq> []
        \<longrightarrow> getSigner lib DP env svc p h None
            = (case getProvider lib DP env svc p h of
                 (Inl e, ws) \<Rightarrow> (Inl e, ws)
               | (Inr selectedProvider, ws) \<Rightarrow>
                   (case lib_Wallet lib k selectedProvider of
                      Some e \<Rightarrow> (Inl e, ws)
                    | None \<Rightarrow> (Inr (Signer k (Some selectedProvider)), ws))))"
  by (auto simp: getSigner_def missing_private_key_message_def env_truthy_def
        split: option.splits)

text \<open>The theorem with and without \<^verbatim>\<open>PRIVATE_KEY\<close>, for \<^verbatim>\<open>sepolia\<close>.\<close>

theorem getSigner_precedence_witness:
  "svc_signer stub_service = None
   \<and> PRIVATE_KEY (stub_env\<lparr>PRIVATE_KEY := Some ''0x01''\<rparr>) = Some ''0x01''
   \<and> getSigner stub_lib [''mainnet'', ''sepolia''] (stub_env\<lparr>PRIVATE_KEY := Some ''0x01''\<rparr>)
        stub_service (Some ''sepolia'') None None
      = (Inr (Signer ''0x01'' (Some (Alchemy ''sepolia'' None))), [])
   \<and> getSigner stub_lib [''mainnet'', ''sepolia''] stub_env stub_service (Some ''sepolia'') None None
      = (Inl (new_Error ''Missing PRIVATE_KEY in environment variables. Either provide a signer in the constructor or set PRIVATE_KEY in environment variables.''), [])"
  using getSigner_precedence [of stub_lib "[''mainnet'', ''sepolia'']"
          "stub_env\<lparr>PRIVATE_KEY := Some ''0x01''\<rparr>" stub_service "Some ''sepolia''" None
          "Signer ''0x01'' None" "''0x01''"]
        getSigner_precedence [of stub_lib "[''mainnet'', ''sepolia'']"
          stub_env stub_service "Some ''sepolia''" None "Signer ''0x01'' None" "''0x01''"]
  by (simp add: stub_service_def stub_env_def stub_lib_def getProvider_def check_chainId_def
        getEthersNetworkName_def networkToEthersMap_def toLowerCase_def lower_char_def
        env_truthy_def)

text \<open>
  Claim C4 as stated fails for an override: the signer returned for \<^verbatim>\<open>sepolia\<close> is the
  override, bound to its own connection and not to the one provider resolution gives.
\<close>

theorem getSigner_override_counterexample:
  "getSigner stub_lib [''mainnet'', ''sepolia''] stub_env stub_service (Some ''sepolia'') None
       (Some (Signer ''0x01'' (Some (JsonRpc ''http://localhost:8545''))))
     = (Inr (Signer ''0x01'' (Some (JsonRpc ''http://localhost:8545''))), [])
   \<and> getProvider stub_lib [''mainnet'', ''sepolia''] stub_env stub_service (Some ''sepolia'') None
     = (Inr (Alchemy ''sepolia'' None), [])
   \<and> signer_provider (Signer ''0x01'' (Some (JsonRpc ''http://localhost:8545'')))
     \<noteq> Some (Alchemy ''sepolia'' None)"
  by (simp add: getSigner_def getProvider_def check_chainId_def stub_lib_def stub_env_def
        getEthersNetworkName_def networkToEthersMap_def toLowerCase_def lower_char_def)


section \<open>Validation comes before the network\<close>

lemma well_formed_address_code:
  "well_formed_address s \<longleftrightarrow> (take 2 s = ''0x'' \<and> length s = 42 \<and> list_all hex_char (drop 2 s))"
proof
  assume "well_formed_address s"
  then show "take 2 s = ''0x'' \<and> length s = 42 \<and> list_all hex_char (drop 2 s)"
    by (auto simp: well_formed_address_def)
next
  assume a: "take 2 s = ''0x'' \<and> length s = 42 \<and> list_all hex_char (drop 2 s)"
  then have "s = ''0x'' @ drop 2 s" by (metis append_take_drop_id)
  moreover from a have "length (drop 2 s) = 40" by simp
  ultimately show "well_formed_address s"
    using a unfolding well_formed_address_def by blast
qed

lemma io_catch_effects [simp]: "snd (io_catch m c d) = snd m"
  by (cases m) (auto simp: io_catch_def split: sum.splits)

lemma io_catch_token_effects [simp]: "snd (io_catch_token m c d) = snd m"
  by (cases m) (auto simp: io_catch_token_def split: sum.splits)

lemma io_bind_Inl [simp]: "io_bind (Inl e, effs) f = (Inl e, effs)"
  by (simp add: io_bind_def)

lemma io_bind_Inr [simp]: "io_bind (Inr x, effs) f = (fst (f x), effs @ snd (f x))"
  by (simp add: io_bind_def split: prod.splits)

lemmas zod_eval = addressSchema_parse_iff io_lift_def io_catch_def io_catch_token_def
  zod_regex_message_def validation_error_def is_TokenError_def

lemma getBalance_invalid:
  "\<not> well_formed_address a \<Longrightarrow>
   getBalance lib net DP env svc a p h = (Inl validation_error, [])"
  by (simp add: getBalance_def zod_eval)

lemma getERC20Balance_invalid:
  "\<not> well_formed_address t \<or> \<not> well_formed_address ownr \<Longrightarrow>
   getERC20Balance net t ownr p h = (Inl validation_error, [])"
  by (auto simp: getERC20Balance_def zod_eval)

lemma transferERC20_invalid:
  "\<not> well_formed_address t \<or> \<not> well_formed_address r \<Longrightarrow>
   transferERC20 net t r amount p h opts = (Inl validation_error, [])"
  by (auto simp: transferERC20_def zod_eval)

lemma json_elems_texts:
  "list_all is_text xs \<Longrightarrow> \<exists>ss. json_array (json_elems rep xs) = Some ss"
proof (induction xs)
  case Nil
  show ?case by simp
next
  case (Cons x xs)
  then obtain s where "x = JString s" by (cases x) (auto simp: is_text_def)
  moreover from Cons obtain ss where "json_array (json_elems rep xs) = Some ss" by auto
  ultimately show ?case
    by (cases rep)
       (simp_all add: json_property.simps apply_toJSON_def apply_replacer_def bigint_replacer_def)
qed

lemma JSON_stringify_abi:
  assumes "abi_well_typed abi"
  shows "\<exists>r. js_JSON_stringify abi = Inr r"
proof (cases abi)
  case (JString s)
  then show ?thesis
    by (simp add: js_JSON_stringify_def JSON_stringify_def json_property.simps apply_toJSON_def
          apply_replacer_def)
next
  case (JArray xs)
  with assms have "list_all is_text xs" by (simp add: abi_well_typed_def)
  then obtain ss where "json_array (json_elems NoReplacer xs) = Some ss"
    using json_elems_texts by blast
  with JArray show ?thesis
    by (simp add: js_JSON_stringify_def JSON_stringify_def json_property.simps apply_toJSON_def
          apply_replacer_def json_array_text_def)
qed (use assms in \<open>simp_all add: abi_well_typed_def\<close>)

lemma abi_detail_returns: "abi_well_typed abi \<Longrightarrow> \<exists>r. abi_detail abi = Inr r"
  using JSON_stringify_abi [of abi] by (cases abi) (simp_all add: abi_detail_def)

lemma contractCall_invalid:
  assumes "\<not> well_formed_address a" and "abi_well_typed abi"
  shows "contractCall lib net DP env svc a abi m args p h = (Inl validation_error, [])"
proof -
  obtain r where "abi_detail abi = Inr r" using assms(2) abi_detail_returns by blast
  moreover obtain r' where "serializeValue (JArray args) = Inr r'"
    using serializeValue_returns(1) by blast
  ultimately show ?thesis using assms(1)
    by (simp add: contractCall_def zod_eval del: serializeValue.simps)
qed

lemma contractCallView_invalid:
  assumes "\<not> well_formed_address a" and "abi_well_typed abi"
  shows "contractCallView lib net DP env svc a abi m args p h = (Inl validation_error, [])"
proof -
  obtain r where "abi_detail abi = Inr r" using assms(2) abi_detail_returns by blast
  moreover obtain r' where "serializeValue (JArray args) = Inr r'"
    using serializeValue_returns(1) by blast
  ultimately show ?thesis using assms(1)
    by (simp add: contractCallView_def zod_eval del: serializeValue.simps)
qed

lemma contractCallWithOverrides_invalid:
  assumes "\<not> well_formed_address a" and "abi_well_typed abi"
  shows "contractCallWithOverrides lib net DP env svc a abi m args v p ov
           = (Inl validation_error, [])"
proof -
  obtain r where "js_JSON_stringify abi = Inr r" using assms(2) JSON_stringify_abi by blast
  moreover obtain r' where "serializeValue (JArray args) = Inr r'"
    using serializeValue_returns(1) by blast
  moreover obtain r'' where "serializeValue (optional_object ov) = Inr r''"
    using serializeValue_returns(1) by blast
  ultimately show ?thesis using assms(1)
    by (simp add: contractCallWithOverrides_def zod_eval del: serializeValue.simps)
qed

lemma contractSendTransactionWithOverrides_invalid:
  assumes "\<not> well_formed_address a" and "abi_well_typed abi"
  shows "contractSendTransactionWithOverrides lib net DP env svc a abi m args v p ov
           = (Inl validation_error, [])"
proof -
  obtain r where "js_JSON_stringify abi = Inr r" using assms(2) JSON_stringify_abi by blast
  moreover obtain r' where "serializeValue (JArray args) = Inr r'"
    using serializeValue_returns(1) by blast
  moreover obtain r'' where
    "serializeValue (JObject (case ov of None \<Rightarrow> [] | Some es \<Rightarrow> es)) = Inr r''"
    using serializeValue_returns(1) by blast
  ultimately show ?thesis using assms(1)
    by (simp add: contractSendTransactionWithOverrides_def zod_eval del: serializeValue.simps)
qed

text \<open>
  The same holds for any operation of the two shapes: whatever follows
  \<^verbatim>\<open>addressSchema.parse(address)\<close> in the \<^verbatim>\<open>try\<close> block is not run for a malformed
  address.
\<close>

lemma validated_shape:
  assumes "\<not> well_formed_address a"
  shows "io_catch (io_bind (io_lift (addressSchema_parse a)) f) c (Inr d)
           = (Inl validation_error, [])"
    and "io_catch_token (io_bind (io_lift (addressSchema_parse a)) f) c (Inr d)
           = (Inl validation_error, [])"
  using assms by (simp_all add: zod_eval)

text \<open>
  Claim C2, as amended. Address validation accepts a string exactly when it is \<^verbatim>\<open>0x\<close>
  followed by 40 hexadecimal characters. For the operations that validate with
  \<^verbatim>\<open>addressSchema\<close> (\<open>getBalance\<close>, \<open>getERC20Balance\<close>, \<open>transferERC20\<close>, \<open>contractCall\<close>,
  \<open>contractCallView\<close>, \<open>contractCallWithOverrides\<close>,
  \<open>contractSendTransactionWithOverrides\<close>), any other string as an address makes the
  operation fail with the validation error and with no effect at all: no provider is
  resolved, no network method and no token module is called. The interface description is
  a string or an array of strings, as its type says.
\<close>

theorem address_validation_before_network:
  "(addressSchema_parse a = Inr a) = well_formed_address a
   \<and> (\<not> well_formed_address a \<and> abi_well_typed abi \<longrightarrow>
        getBalance lib net DP env svc a p h = (Inl validation_error, [])
      \<and> getERC20Balance net a b p h = (Inl validation_error, [])
      \<and> getERC20Balance net b a p h = (Inl validation_error, [])
      \<and> transferERC20 net a b amount p h opts = (Inl validation_error, [])
      \<and> transferERC20 net b a amount p h opts = (Inl validation_error, [])
      \<and> contractCall lib net DP env svc a abi m args p h = (Inl validation_error, [])
      \<and> contractCallView lib net DP env svc a abi m args p h = (Inl validation_error, [])
      \<and> contractCallWithOverrides lib net DP env svc a abi m args v p ov
          = (Inl validation_error, [])
      \<and> contractSendTransactionWithOverrides lib net DP env svc a abi m args v p ov
          = (Inl validation_error, []))"
  using getBalance_invalid getERC20Balance_invalid transferERC20_invalid contractCall_invalid
    contractCallView_invalid contractCallWithOverrides_invalid
    contractSendTransactionWithOverrides_invalid
  by (simp add: addressSchema_parse_iff)

text \<open>The theorem at the malformed address \<^verbatim>\<open>0x12\<close> and at a well-formed one.\<close>

theorem address_validation_before_network_witness:
  "\<not> well_formed_address ''0x12'' \<and> abi_well_typed (JString ''[]'')
   \<and> well_formed_address stub_address
   \<and> addressSchema_parse stub_address = Inr stub_address
   \<and> getBalance stub_lib stub_net [''mainnet''] stub_env stub_service ''0x12'' None None
       = (Inl validation_error, [])
   \<and> contractCall stub_lib stub_net [''mainnet''] stub_env stub_service ''0x12'' (JString ''[]'')
        ''balanceOf'' [] None None
       = (Inl validation_error, [])"
  using address_validation_before_network [of "''0x12''" "JString ''[]''" stub_lib stub_net
          "[''mainnet'']" stub_env stub_service None None]
        address_validation_before_network [of stub_address]
  by (simp add: well_formed_address_code abi_well_typed_def stub_address_def hex_char_def)

text \<open>
  Claim C2 as stated fails for \<open>queryLogs\<close>, which takes an address and does not use
  \<^verbatim>\<open>addressSchema\<close>: the empty string is not a well-formed address, and the operation
  skips validation, calls the connection's \<^verbatim>\<open>getLogs\<close> with no address filter and
  succeeds.
\<close>

theorem queryLogs_empty_address_counterexample:
  "\<not> well_formed_address []
   \<and> queryLogs stub_lib stub_net [''mainnet''] stub_env stub_service (Some []) None
        JUndefined JUndefined None None
     = (Inr [formatEvent stub_log, formatEvent (stub_log\<lparr>log_data := ''0xbad''\<rparr>)],
        [NetGetLogs (Preconfigured 0)
           [(''address'', JUndefined), (''topics'', JUndefined),
            (''fromBlock'', JUndefined), (''toBlock'', JUndefined)]])"
  by (simp add: well_formed_address_code queryLogs_def checksum_optional_def io_lift_def
        io_warns_def io_net_def io_pure_def io_catch_def getProvider_def stub_service_def
        stub_net_def optional_array_def)


section \<open>The value of a submitted transaction\<close>

lemma obj_get_obj_set: "obj_get (obj_set k v es) k' = (if k' = k then v else obj_get es k')"
  by (induction es) (auto simp: obj_get_def)

lemma obj_get_obj_spread:
  "obj_get (obj_spread t es) k
     = (case map_of (rev es) k of Some v \<Rightarrow> v | None \<Rightarrow> obj_get t k)"
proof (induction es arbitrary: t)
  case Nil
  show ?case by simp
next
  case (Cons e es)
  obtain k' v' where e: "e = (k', v')" by (cases e)
  show ?case
    by (simp add: e Cons obj_get_obj_set map_add_def split: option.splits)
qed

lemma io_bind_effect:
  assumes "eff \<in> set (snd (io_bind m f))"
  shows "eff \<in> set (snd m) \<or> (\<exists>x. fst m = Inr x \<and> eff \<in> set (snd (f x)))"
  using assms by (cases m; cases "fst m") (auto simp: io_bind_def split: prod.splits)

lemma no_net_in_lift [simp]:
  "snd (io_lift r) = []" "snd (io_ctor c) = []" "snd (io_pure x) = []" "snd (io_throw e) = []"
  by (simp_all add: io_lift_def io_ctor_def io_pure_def io_throw_def split: option.splits)

lemma warns_not_net:
  "NetContractCall s a m xs ov \<notin> set (snd (io_warns r))"
  "NetSendTransaction s tx \<notin> set (snd (io_warns r))"
  "NetGetLogs pr fl \<notin> set (snd (io_warns r))"
  by (auto simp: io_warns_def)

lemma io_lift_fst [simp]: "fst (io_lift r) = r"
  by (simp add: io_lift_def)

lemma contractCallWithOverrides_value:
  assumes "NetContractCall s a m xs ov
             \<in> set (snd (contractCallWithOverrides lib net DP env svc addr abi method args value
                          provider overrides))"
  shows "\<exists>parsedValue. lib_parseEther lib value = Inr parsedValue
           \<and> obj_get ov ''value'' = JBigInt parsedValue"
  using assms unfolding contractCallWithOverrides_def io_catch_effects
  by (auto dest!: io_bind_effect simp: warns_not_net io_net_def Let_def obj_get_obj_set)

lemma contractSendTransactionWithOverrides_value:
  assumes "NetContractCall s a m xs ov
             \<in> set (snd (contractSendTransactionWithOverrides lib net DP env svc addr abi method
                          args value provider overrides))"
  shows "\<exists>parsedValue. lib_parseEther lib value = Inr parsedValue
           \<and> obj_get ov ''value'' = JBigInt parsedValue"
  using assms unfolding contractSendTransactionWithOverrides_def Let_def io_catch_effects
  by (auto dest!: io_bind_effect simp: warns_not_net io_net_def obj_get_obj_set)

lemma obj_get_spread_optional:
  "obj_get (spread_optional t ov) k
     = (case ov of
          None \<Rightarrow> obj_get t k
        | Some es \<Rightarrow> (case map_of (rev es) k of Some v \<Rightarrow> v | None \<Rightarrow> obj_get t k))"
  by (simp add: spread_optional_def obj_get_obj_spread split: option.splits)

lemma contractSendTransaction_submits:
  assumes "NetSendTransaction s tx
             \<in> set (snd (contractSendTransaction lib net DP env svc addr abi method args value
                          provider overrides))"
  shows "\<exists>parsedValue data. lib_parseEther lib value = Inr parsedValue
           \<and> tx = spread_optional
                    [(''to'', JString addr), (''data'', JString data),
                     (''value'', JBigInt parsedValue)] overrides"
  using assms unfolding contractSendTransaction_def io_catch_effects
  by (auto dest!: io_bind_effect simp: warns_not_net io_net_def Let_def)

lemma contractSendTransaction_value:
  assumes "NetSendTransaction s tx
             \<in> set (snd (contractSendTransaction lib net DP env svc addr abi method args value
                          provider overrides))"
  shows "\<exists>parsedValue. lib_parseEther lib value = Inr parsedValue
           \<and> obj_get tx ''value''
               = (case overrides of
                    None \<Rightarrow> JBigInt parsedValue
                  | Some es \<Rightarrow>
                      (case map_of (rev es) ''value'' of
                         Some v \<Rightarrow> v
                       | None \<Rightarrow> JBigInt parsedValue))"
proof -
  from contractSendTransaction_submits [OF assms]
  obtain parsedValue data where
    pv: "lib_parseEther lib value = Inr parsedValue" and
    tx: "tx = spread_optional
                [(''to'', JString addr), (''data'', JString data),
                 (''value'', JBigInt parsedValue)] overrides"
    by blast
  have "obj_get [(''to'', JString addr), (''data'', JString data),
                 (''value'', JBigInt parsedValue)] ''value'' = JBigInt parsedValue"
    by (simp add: obj_get_def)
  then have "obj_get tx ''value''
               = (case overrides of
                    None \<Rightarrow> JBigInt parsedValue
                  | Some es \<Rightarrow>
                      (case map_of (rev es) ''value'' of
                         Some v \<Rightarrow> v
                       | None \<Rightarrow> JBigInt parsedValue))"
    unfolding tx obj_get_spread_optional by (simp split: option.splits)
  with pv show ?thesis by blast
qed

text \<open>
  Claim C1, at the input where the code departs from it. \<open>contractSendTransaction\<close> is
  given the amount \<^verbatim>\<open>0\<close>, whose conversion is 0, and overrides with a \<^verbatim>\<open>value\<close> entry of 5:
  the transaction it hands to the signer has the value 5, the overrides' own, because the
  overrides are spread after the value. \<open>contractCallWithOverrides\<close> at the same input
  submits the value 0, as the claim says; the lemmas above show that it and
  \<open>contractSendTransactionWithOverrides\<close> always submit the converted amount.
\<close>

theorem contractSendTransaction_overridden_value:
  "lib_parseEther stub_lib ''0'' = Inr 0
   \<and> contractSendTransaction stub_lib stub_net [''mainnet'']
        (stub_env\<lparr>PRIVATE_KEY := Some ''0x01''\<rparr>) stub_service stub_address (JString ''[]'')
        ''transfer'' [] ''0'' None (Some [(''value'', JBigInt 5)])
     = (Inr (JObject [(''hash'', JString ''0xfeed'')]),
        [NetSendTransaction (Signer ''0x01'' (Some (Preconfigured 0)))
           [(''to'', JString stub_address), (''data'', JString ''0xa9059cbb''),
            (''value'', JBigInt 5)]])
   \<and> contractCallWithOverrides stub_lib stub_net [''mainnet'']
        (stub_env\<lparr>PRIVATE_KEY := Some ''0x01''\<rparr>) stub_service stub_address (JString ''[]'')
        ''transfer'' [] ''0'' None (Some [(''value'', JBigInt 5)])
     = (Inr (JObject [(''hash'', JString ''0xfeed'')]),
        [NetContractCall (Signer ''0x01'' (Some (Preconfigured 0))) stub_address ''transfer'' []
           [(''value'', JBigInt 0)]])"
  by (simp add: contractSendTransaction_def contractCallWithOverrides_def addressSchema_parse_iff
        well_formed_address_code stub_address_def hex_char_def io_lift_def io_warns_def
        io_ctor_def io_net_def io_catch_def getSigner_def getProvider_def env_truthy_def
        stub_env_def stub_service_def stub_lib_def stub_net_def find_function_def
        spread_optional_def)


section \<open>serializeEventArgs\<close>

















section \<open>Contract events\<close>

lemma network_calls_warns [simp]: "network_calls (snd (io_warns r)) = []"
  by (simp add: network_calls_def io_warns_def is_network_def filter_empty_conv)

lemma network_calls_append [simp]:
  "network_calls (xs @ ys) = network_calls xs @ network_calls ys"
  by (simp add: network_calls_def)

lemma opened_no_network:
  "network_calls (snd (
      io_bind (io_lift (lib_getAddress lib contractAddress)) (\<lambda>checksummedAddress.
      io_bind (io_warns (getProvider lib DP env svc provider chainId)) (\<lambda>selectedProvider.
      io_bind (io_ctor (lib_Contract lib checksummedAddress abi)) (\<lambda>contract.
      io_pure checksummedAddress))))) = []"
  by (auto simp: io_bind_def io_lift_def io_ctor_def io_pure_def io_warns_def network_calls_def
        is_network_def filter_empty_conv
        split: sum.splits prod.splits option.splits)

lemma find_event_absent:
  "lib_getEvent lib abi n = Inr None \<Longrightarrow>
   find_event lib abi n = Inl (new_Error (''Event '' @ n @ '' not found in contract ABI''))"
  by (simp add: find_event_def)

lemma contractEvents_absent_event:
  assumes "n \<noteq> []" and "lib_getEvent lib abi n = Inr None"
  shows "(\<exists>e. fst (contractEvents lib net DP env svc a abi (Some n) topics fromBlock toBlock p h)
               = Inl e)
       \<and> network_calls
           (snd (contractEvents lib net DP env svc a abi (Some n) topics fromBlock toBlock p h))
         = []"
proof -
  let ?opened = "io_bind (io_lift (lib_getAddress lib a)) (\<lambda>checksummedAddress.
      io_bind (io_warns (getProvider lib DP env svc p h)) (\<lambda>selectedProvider.
      io_bind (io_ctor (lib_Contract lib checksummedAddress abi)) (\<lambda>contract.
      io_pure checksummedAddress)))"
  obtain r effs where o: "?opened = (r, effs)" by (cases ?opened)
  have nn: "network_calls effs = []"
    using opened_no_network [of lib a DP env svc p h abi] o by simp
  show ?thesis
  proof (cases r)
    case (Inl e)
    with o nn show ?thesis
      using assms(1)
      by (simp add: contractEvents_def Let_def io_catch_def split: sum.splits)
  next
    case (Inr ck)
    with o nn show ?thesis
      using assms find_event_absent [OF assms(2)]
      by (simp add: contractEvents_def Let_def io_catch_def io_lift_def split: sum.splits)
  qed
qed

lemma queryLogs_filter:
  assumes "NetGetLogs sp fl \<in> set (snd (queryLogs lib net DP env svc addr tp fb tb p h))"
  shows "obj_get fl ''topics'' = optional_array tp"
  using assms unfolding queryLogs_def io_catch_effects
  by (auto dest!: io_bind_effect simp: warns_not_net io_net_def Let_def obj_get_def)

lemma queryLogs_result:
  assumes "queryLogs lib net DP env svc addr tp fb tb p h = (Inr logs, effs)"
  shows "\<exists>sp fl raw. net_getLogs net sp fl = Inr raw \<and> logs = map formatEvent raw"
proof -
  from assms have "fst (queryLogs lib net DP env svc addr tp fb tb p h) = Inr logs" by simp
  then show ?thesis
    unfolding queryLogs_def
    by (auto simp: io_catch_def io_bind_def io_lift_def io_warns_def io_net_def io_pure_def Let_def
          split: sum.splits prod.splits option.splits if_splits)
qed

lemma event_topics_eq:
  "event_topics th topics = JString th # (case topics of None \<Rightarrow> [] | Some ts \<Rightarrow> ts)"
  by (simp add: event_topics_def split: option.splits)

lemma opened_no_getLogs:
  "NetGetLogs sp fl \<notin> set (snd (
      io_bind (io_lift (lib_getAddress lib contractAddress)) (\<lambda>checksummedAddress.
      io_bind (io_warns (getProvider lib DP env svc provider chainId)) (\<lambda>selectedProvider.
      io_bind (io_ctor (lib_Contract lib checksummedAddress abi)) (\<lambda>contract.
      io_pure checksummedAddress)))))"
  by (auto dest!: io_bind_effect simp: warns_not_net)

lemma contractEvents_topics:
  assumes "n \<noteq> []"
    and "NetGetLogs sp fl
           \<in> set (snd (contractEvents lib net DP env svc a abi (Some n) topics fromBlock toBlock p h))"
  shows "\<exists>topicHash. lib_getEvent lib abi n = Inr (Some topicHash)
           \<and> obj_get fl ''topics''
               = JArray (JString topicHash # (case topics of None \<Rightarrow> [] | Some ts \<Rightarrow> ts))"
proof -
  let ?opened = "io_bind (io_lift (lib_getAddress lib a)) (\<lambda>checksummedAddress.
      io_bind (io_warns (getProvider lib DP env svc p h)) (\<lambda>selectedProvider.
      io_bind (io_ctor (lib_Contract lib checksummedAddress abi)) (\<lambda>contract.
      io_pure checksummedAddress)))"
  obtain r effs where o: "?opened = (r, effs)" by (cases ?opened)
  have nn: "NetGetLogs sp fl \<notin> set effs"
    using opened_no_getLogs [of sp fl lib a DP env svc p h abi] o by simp
  show ?thesis
  proof (cases r)
    case (Inl e)
    with o nn assms show ?thesis
      by (simp add: contractEvents_def Let_def)
  next
    case (Inr ck)
    with o nn assms have
      "NetGetLogs sp fl \<in> set (snd (
         io_bind (io_lift (find_event lib abi n)) (\<lambda>topicHash.
         io_bind (queryLogs lib net DP env svc (Some ck) (Some (event_topics topicHash topics))
                    fromBlock toBlock p h) (\<lambda>logs.
         io_pure (map (decode_event lib abi) logs)))))"
      by (simp add: contractEvents_def Let_def)
    then obtain th where th: "find_event lib abi n = Inr th"
      and q: "NetGetLogs sp fl \<in> set (snd (
                queryLogs lib net DP env svc (Some ck) (Some (event_topics th topics))
                  fromBlock toBlock p h))"
      by (auto dest!: io_bind_effect)
    from th have "lib_getEvent lib abi n = Inr (Some th)"
      by (auto simp: find_event_def split: sum.splits option.splits)
    moreover from queryLogs_filter [OF q]
    have "obj_get fl ''topics''
            = JArray (JString th # (case topics of None \<Rightarrow> [] | Some ts \<Rightarrow> ts))"
      by (simp add: optional_array_def event_topics_eq)
    ultimately show ?thesis by blast
  qed
qed

lemma contractEvents_result:
  assumes "n \<noteq> []"
    and "contractEvents lib net DP env svc a abi (Some n) topics fromBlock toBlock p h
           = (Inr rs, effs)"
  shows "\<exists>sp fl raw. net_getLogs net sp fl = Inr raw
           \<and> rs = map (\<lambda>l. decode_event lib abi (formatEvent l)) raw"
proof -
  let ?opened = "io_bind (io_lift (lib_getAddress lib a)) (\<lambda>checksummedAddress.
      io_bind (io_warns (getProvider lib DP env svc p h)) (\<lambda>selectedProvider.
      io_bind (io_ctor (lib_Contract lib checksummedAddress abi)) (\<lambda>contract.
      io_pure checksummedAddress)))"
  obtain r effs0 where o: "?opened = (r, effs0)" by (cases ?opened)
  show ?thesis
  proof (cases r)
    case (Inl e)
    with o assms show ?thesis
      by (simp add: contractEvents_def Let_def io_catch_def split: sum.splits)
  next
    case (Inr ck)
    with o assms have
      "fst (io_bind (io_lift (find_event lib abi n)) (\<lambda>topicHash.
         io_bind (queryLogs lib net DP env svc (Some ck) (Some (event_topics topicHash topics))
                    fromBlock toBlock p h) (\<lambda>logs.
         io_pure (map (decode_event lib abi) logs)))) = Inr rs"
      by (auto simp: contractEvents_def Let_def io_catch_def split: sum.splits prod.splits)
    then obtain th logs e1 where
      "queryLogs lib net DP env svc (Some ck) (Some (event_topics th topics)) fromBlock toBlock p h
         = (Inr logs, e1)"
      and rs: "rs = map (decode_event lib abi) logs"
      by (auto simp: io_bind_def io_lift_def io_pure_def split: sum.splits prod.splits)
    from queryLogs_result [OF this(1)] rs show ?thesis by (fastforce simp: comp_def)
  qed
qed

lemma decode_event_raw:
  "lib_parseLog lib abi (js_get l ''topics'') (js_get l ''data'') = Inl e \<Longrightarrow>
   decode_event lib abi l = l"
  by (simp add: decode_event_def)

lemma decode_event_decoded:
  "lib_parseLog lib abi (js_get l ''topics'') (js_get l ''data'') = Inr (Some (en, x)) \<Longrightarrow>
   js_get (decode_event lib abi l) ''name'' = JString en
   \<and> js_get (decode_event lib abi l) ''args'' = serializeEventArgs x"
  by (simp add: decode_event_def js_get_def obj_get_obj_set)

lemmas events_eval = contractEvents_def queryLogs_def checksum_optional_def find_event_def
  event_topics_def optional_array_def decode_event_def formatEvent_def stub_log_def
  io_bind_def io_lift_def io_warns_def io_ctor_def io_net_def io_pure_def io_catch_def
  getProvider_def stub_service_def stub_lib_def stub_net_def stub_address_def
  js_get_def obj_get_def own_entries_def abi_detail_def or_any_def decimal_eval

lemma contractEvents_total:
  assumes "n \<noteq> []"
    and "lib_getAddress lib a = Inr ck"
    and "getProvider lib DP env svc p h = (Inr sp, ws)"
    and "lib_Contract lib ck abi = None"
    and "lib_getEvent lib abi n = Inr (Some th)"
    and "ck \<noteq> []"
    and "lib_getAddress lib ck = Inr ck'"
    and "net_getLogs net sp
           [(''address'', JString ck'),
            (''topics'', JArray (JString th # (case topics of None \<Rightarrow> [] | Some ts \<Rightarrow> ts))),
            (''fromBlock'', fromBlock), (''toBlock'', toBlock)] = Inr raw"
  shows "contractEvents lib net DP env svc a abi (Some n) topics fromBlock toBlock p h
           = (Inr (map (\<lambda>l. decode_event lib abi (formatEvent l)) raw),
              map Warn ws @ map Warn ws
              @ [NetGetLogs sp
                   [(''address'', JString ck'),
                    (''topics'',
                       JArray (JString th # (case topics of None \<Rightarrow> [] | Some ts \<Rightarrow> ts))),
                    (''fromBlock'', fromBlock), (''toBlock'', toBlock)]])"
  using assms
  by (simp add: contractEvents_def queryLogs_def checksum_optional_def find_event_def
        event_topics_eq optional_array_def Let_def comp_def
        io_catch_def io_bind_def io_lift_def io_warns_def io_ctor_def io_net_def io_pure_def)


text \<open>
  Claim C8. In \<open>contractEvents\<close> with an event name: when the interface description has no
  event of that name, the operation fails and calls no network method; every log fetch it
  makes has the event's topic hash in front of the caller's topics as its topic filter.
  Whenever the address checksums, the connection resolves, the contract is constructed,
  the interface has the event and the fetch answers, the operation succeeds: it has made
  that one fetch, with the event's topic hash in front of the caller's topics, and its
  result is the fetched records in their order, each decoded on its own, whatever the
  decoding of the others does. No other result is a success. A record whose decoding
  raises is returned as it was fetched, undecoded, and any other gets the decoded name and
  the serialized arguments.
\<close>

theorem contractEvents_partial_failure:
  "(n \<noteq> [] \<and> lib_getEvent lib abi n = Inr None \<longrightarrow>
      (\<exists>e. fst (contractEvents lib net DP env svc a abi (Some n) topics fromBlock toBlock p h)
             = Inl e)
      \<and> network_calls
          (snd (contractEvents lib net DP env svc a abi (Some n) topics fromBlock toBlock p h))
        = [])
   \<and> (n \<noteq> []
       \<and> NetGetLogs sp fl
           \<in> set (snd (contractEvents lib net DP env svc a abi (Some n) topics fromBlock toBlock
                        p h)) \<longrightarrow>
      (\<exists>topicHash. lib_getEvent lib abi n = Inr (Some topicHash)
         \<and> obj_get fl ''topics''
             = JArray (JString topicHash # (case topics of None \<Rightarrow> [] | Some ts \<Rightarrow> ts))))
   \<and> (n \<noteq> []
       \<and> lib_getAddress lib a = Inr ck
       \<and> getProvider lib DP env svc p h = (Inr selected, ws)
       \<and> lib_Contract lib ck abi = None
       \<and> lib_getEvent lib abi n = Inr (Some th)
       \<and> ck \<noteq> []
       \<and> lib_getAddress lib ck = Inr ck'
       \<and> net_getLogs net selected
            [(''address'', JString ck'),
             (''topics'', JArray (JString th # (case topics of None \<Rightarrow> [] | Some ts \<Rightarrow> ts))),
             (''fromBlock'', fromBlock), (''toBlock'', toBlock)] = Inr fetched \<longrightarrow>
      contractEvents lib net DP env svc a abi (Some n) topics fromBlock toBlock p h
        = (Inr (map (\<lambda>l. decode_event lib abi (formatEvent l)) fetched),
           map Warn ws @ map Warn ws
           @ [NetGetLogs selected
                [(''address'', JString ck'),
                 (''topics'',
                    JArray (JString th # (case topics of None \<Rightarrow> [] | Some ts \<Rightarrow> ts))),
                 (''fromBlock'', fromBlock), (''toBlock'', toBlock)]]))
   \<and> (n \<noteq> []
       \<and> contractEvents lib net DP env svc a abi (Some n) topics fromBlock toBlock p h
           = (Inr rs, effs) \<longrightarrow>
      (\<exists>sp' fl' raw. net_getLogs net sp' fl' = Inr raw
         \<and> rs = map (\<lambda>l. decode_event lib abi (formatEvent l)) raw))
   \<and> (lib_parseLog lib abi (js_get l ''topics'') (js_get l ''data'') = Inl e' \<longrightarrow>
        decode_event lib abi l = l)
   \<and> (lib_parseLog lib abi (js_get l ''topics'') (js_get l ''data'') = Inr (Some (en, x)) \<longrightarrow>
        js_get (decode_event lib abi l) ''name'' = JString en
        \<and> js_get (decode_event lib abi l) ''args'' = serializeEventArgs x)"
  using contractEvents_absent_event [of n lib abi net DP env svc a topics fromBlock toBlock p h]
    contractEvents_topics [of n sp fl lib net DP env svc a abi topics fromBlock toBlock p h]
    contractEvents_total [of n lib a ck DP env svc p h selected ws abi th ck' net topics
                             fromBlock toBlock fetched]
    contractEvents_result [of n lib net DP env svc a abi topics fromBlock toBlock p h rs effs]
    decode_event_raw [of lib abi l e'] decode_event_decoded [of lib abi l en x]
  by blast

text \<open>
  The theorem at an interface without the event \<^verbatim>\<open>Approval\<close>, and at two fetched records of
  \<^verbatim>\<open>Transfer\<close>, of which the second does not decode.
\<close>

theorem contractEvents_partial_failure_witness:
  "lib_getEvent stub_lib (JString ''[]'') ''Approval'' = Inr None
   \<and> contractEvents stub_lib stub_net [''mainnet''] stub_env stub_service stub_address
        (JString ''[]'') (Some ''Approval'') None JUndefined JUndefined None None
     = (Inl (new_Error (''Failed to query contract events: Event Approval not found in contract ABI''
              @ '' Details: contractAddress=0x00000000000000000000000000000000000000aa, abi=[], ''
              @ ''eventName=Approval, topics=any, fromBlock=any, toBlock=any'')), [])
   \<and> lib_getAddress stub_lib stub_address = Inr stub_address
   \<and> getProvider stub_lib [''mainnet''] stub_env stub_service None None
       = (Inr (Preconfigured 0), [])
   \<and> lib_Contract stub_lib stub_address (JString ''[]'') = None
   \<and> lib_getEvent stub_lib (JString ''[]'') ''Transfer'' = Inr (Some ''0xddf252ad'')
   \<and> net_getLogs stub_net (Preconfigured 0)
        [(''address'', JString stub_address),
         (''topics'', JArray [JString ''0xddf252ad'', JNull, JString ''0xabc'']),
         (''fromBlock'', JUndefined), (''toBlock'', JUndefined)]
       = Inr [stub_log, stub_log\<lparr>log_data := ''0xbad''\<rparr>]
   \<and> lib_parseLog stub_lib (JString ''[]'')
        (js_get (formatEvent (stub_log\<lparr>log_data := ''0xbad''\<rparr>)) ''topics'')
        (js_get (formatEvent (stub_log\<lparr>log_data := ''0xbad''\<rparr>)) ''data'')
       = Inl (Error ''Error'' ''data out-of-bounds'' (Some ''BUFFER_OVERRUN''))
   \<and> contractEvents stub_lib stub_net [''mainnet''] stub_env stub_service stub_address
        (JString ''[]'') (Some ''Transfer'') (Some [JNull, JString ''0xabc'']) JUndefined JUndefined
        None None
     = (Inr [decode_event stub_lib (JString ''[]'') (formatEvent stub_log),
             formatEvent (stub_log\<lparr>log_data := ''0xbad''\<rparr>)],
        [NetGetLogs (Preconfigured 0)
           [(''address'', JString stub_address),
            (''topics'', JArray [JString ''0xddf252ad'', JNull, JString ''0xabc'']),
            (''fromBlock'', JUndefined), (''toBlock'', JUndefined)]])
   \<and> js_get (decode_event stub_lib (JString ''[]'') (formatEvent stub_log)) ''name''
       = JString ''Transfer''
   \<and> js_get (decode_event stub_lib (JString ''[]'') (formatEvent stub_log)) ''args''
       = JArray [JString ''7'']"
  using contractEvents_partial_failure
          [where n = "''Approval''" and lib = stub_lib and abi = "JString ''[]''"
             and net = stub_net and DP = "[''mainnet'']" and env = stub_env
             and svc = stub_service and a = stub_address and topics = None
             and fromBlock = JUndefined and toBlock = JUndefined and p = None and h = None
             and l = "formatEvent stub_log" and en = "''Transfer''" and x = "JArray [JBigInt 7]"]
        contractEvents_partial_failure
          [where n = "''Transfer''" and lib = stub_lib and abi = "JString ''[]''"
             and net = stub_net and DP = "[''mainnet'']" and env = stub_env
             and svc = stub_service and a = stub_address
             and topics = "Some [JNull, JString ''0xabc'']"
             and fromBlock = JUndefined and toBlock = JUndefined and p = None and h = None
             and ck = stub_address and ck' = stub_address and selected = "Preconfigured 0"
             and ws = "[]" and th = "''0xddf252ad''"
             and fetched = "[stub_log, stub_log\<lparr>log_data := ''0xbad''\<rparr>]"
             and l = "formatEvent (stub_log\<lparr>log_data := ''0xbad''\<rparr>)"
             and e' = "Error ''Error'' ''data out-of-bounds'' (Some ''BUFFER_OVERRUN'')"]
  by (simp add: events_eval new_Error_def)

end
